theory Spec2Isabelle
  imports Complex_Main
begin

section \<open>Dates and times\<close>

text \<open>
  A Python \<open>datetime\<close> is modelled by its wall-clock reading, counted in microseconds
  since 0001-01-01T00:00:00, and its \<open>tzinfo\<close>: \<open>None\<close> for a naive value,
  \<open>Some off\<close> for an aware value whose UTC offset is \<open>off\<close> microseconds.
  The UTC instant of an aware value is \<open>wall - off\<close>.
\<close>

record datetime =
  wall :: int
  tzinfo :: "int option"

definition DT_MIN :: int where
  "DT_MIN = 0"

definition DT_MAX :: int where
  "DT_MAX = 315537897599999999"

definition DAY :: int where
  "DAY = 86400000000"

datatype value_error = Firebase_not_initialized | Must_be_in_future int int

datatype error = ValueError value_error | OverflowError | AttributeError

text \<open>
  \<open>scheduled_time.astimezone(timezone.utc)\<close> on an aware value: the reading is moved to
  offset zero; a value already at offset zero is returned as it is, and a result outside
  the range of \<open>datetime\<close> raises OverflowError.
\<close>

definition astimezone_utc :: "datetime \<Rightarrow> int \<Rightarrow> error + datetime" where
  "astimezone_utc t off =
     (if off = 0 then Inr (t\<lparr>tzinfo := Some 0\<rparr>)
      else if DT_MIN \<le> wall t - off \<and> wall t - off \<le> DT_MAX
           then Inr \<lparr>wall = wall t - off, tzinfo = Some 0\<rparr>
           else Inl OverflowError)"

text \<open>
  Lines 145-155 of \<open>firebase_reminders.py\<close>: a naive time gets \<open>tzinfo = utc\<close> by
  \<open>replace\<close>, an aware one is converted with \<open>astimezone\<close>.
\<close>

definition normalize_scheduled_time :: "datetime \<Rightarrow> error + datetime" where
  "normalize_scheduled_time t =
     (case tzinfo t of
        None \<Rightarrow> Inr (t\<lparr>tzinfo := Some 0\<rparr>)
      | Some off \<Rightarrow> astimezone_utc t off)"

text \<open>
  The clock readings one call takes: \<open>utc_now\<close> is \<open>datetime.now(timezone.utc)\<close>,
  \<open>local_now\<close> is the naive \<open>datetime.now()\<close> and \<open>stamp\<close> is
  \<open>int(datetime.now().timestamp())\<close>.
\<close>

record clock =
  utc_now :: int
  local_now :: int
  stamp :: int

fun str_nat :: "nat \<Rightarrow> string" where
  "str_nat n =
     (if n < 10 then [char_of (48 + n)]
      else str_nat (n div 10) @ [char_of (48 + n mod 10)])"

definition str_int :: "int \<Rightarrow> string" where
  "str_int i = (if i < 0 then CHR ''-'' # str_nat (nat (- i)) else str_nat (nat i))"

section \<open>The push-reminder scheduling engine (firebase_reminders.py)\<close>

datatype status = Scheduled | Sent | Failed | Cancelled

type_synonym metadata = "(string \<times> string) list"

text \<open>
  One entry of \<open>self.reminders[user_id]\<close>. The keys a dictionary gets only later
  (\<open>sent_at\<close>, \<open>firebase_response\<close>, \<open>error\<close>, \<open>cancelled_at\<close>) are options.
  \<open>scheduled_time\<close> is the ISO text of the normalised UTC time, kept as that time's
  reading.
\<close>

record reminder =
  reminder_id :: string
  user_id :: string
  fcm_token :: string
  reminder_text :: string
  scheduled_time :: int
  metadata :: metadata
  created_at :: int
  status :: status
  sent_at :: "int option"
  firebase_response :: "string option"
  error_text :: "string option"
  cancelled_at :: "int option"

text \<open>
  A job of the scheduler's store: its id, the run date of its \<open>DateTrigger\<close> and the
  argument the callback is called with. The fields of the argument that the callback
  reads are never written after the reminder is created, so the job keeps a copy.
\<close>

record 'a job =
  job_id :: string
  run_date :: int
  args :: 'a

text \<open>
  A scheduler object is either running, with its job store, or stopped, with the list of
  jobs that wait for its start. A stopped scheduler has no timer: its jobs never run.
\<close>

datatype 'a sched = Running "'a job list" | Stopped "'a job list"

fun jobs_of :: "'a sched \<Rightarrow> 'a job list" where
  "jobs_of (Running js) = js"
| "jobs_of (Stopped js) = js"

text \<open>
  The service object: \<open>firebase_app\<close> is whether the Firebase SDK was initialised,
  \<open>scheduler\<close> is the scheduler object, \<open>reminders\<close> is the two-level dictionary.
  \<open>_initialize_scheduler\<close> leaves one of three states: no object (the constructor
  raised, \<open>self.scheduler\<close> stays \<open>None\<close>), an object whose \<open>start()\<close> raised (the
  \<open>except\<close> branch only logs, the object stays stopped), or a running scheduler.
\<close>

record service =
  firebase_app :: bool
  scheduler :: "reminder sched option"
  reminders :: "string \<rightharpoonup> (string \<rightharpoonup> reminder)"

datatype scheduler_init = No_scheduler | Start_failed | Started

definition new_service :: "bool \<Rightarrow> scheduler_init \<Rightarrow> service" where
  "new_service fb init =
     \<lparr>firebase_app = fb,
      scheduler = (case init of
                     No_scheduler \<Rightarrow> None
                   | Start_failed \<Rightarrow> Some (Stopped [])
                   | Started \<Rightarrow> Some (Running [])),
      reminders = Map.empty\<rparr>"

text \<open>
  \<open>scheduler.add_job(..., id=job_id, replace_existing=True)\<close>. On a running scheduler a
  job whose id is in the store takes the place of the stored one, any other job is
  added. On a stopped scheduler the job is only appended to the waiting list, whatever
  ids the list holds.
\<close>

fun add_job :: "'a job \<Rightarrow> 'a sched \<Rightarrow> 'a sched" where
  "add_job j (Running js) =
     Running (if job_id j \<in> job_id ` set js
              then map (\<lambda>k. if job_id k = job_id j then j else k) js
              else js @ [j])"
| "add_job j (Stopped js) = Stopped (js @ [j])"

text \<open>
  \<open>scheduler.remove_job(job_id)\<close> removes the first job with the id, from the store of a
  running scheduler or from the waiting list of a stopped one. It raises when there is
  none; the callers catch that, so the model returns the scheduler as it is then.
\<close>

fun remove_first :: "string \<Rightarrow> 'a job list \<Rightarrow> 'a job list" where
  "remove_first jid [] = []"
| "remove_first jid (k # ks) = (if job_id k = jid then ks else k # remove_first jid ks)"

fun remove_job :: "string \<Rightarrow> 'a sched \<Rightarrow> 'a sched" where
  "remove_job jid (Running js) = Running (remove_first jid js)"
| "remove_job jid (Stopped js) = Stopped (remove_first jid js)"

definition notification_job_id :: "string \<Rightarrow> string" where
  "notification_job_id rid = ''firebase_reminder_'' @ rid"

definition lookup_reminder :: "service \<Rightarrow> string \<Rightarrow> string \<Rightarrow> reminder option" where
  "lookup_reminder s uid rid =
     (case reminders s uid of None \<Rightarrow> None | Some m \<Rightarrow> m rid)"

definition store_reminder :: "string \<Rightarrow> string \<Rightarrow> reminder \<Rightarrow> service \<Rightarrow> service" where
  "store_reminder uid rid d s =
     s\<lparr>reminders := (reminders s)
          (uid \<mapsto> (case reminders s uid of None \<Rightarrow> Map.empty | Some m \<Rightarrow> m)(rid \<mapsto> d))\<rparr>"

record schedule_result =
  res_reminder_id :: string
  scheduled_for :: int
  notification_job :: string

text \<open>
  \<open>schedule_reminder\<close>. The result pairs what the call returns or raises with the
  service as the call leaves it. A missing or empty \<open>reminder_id\<close> is generated.
\<close>

definition effective_id :: "clock \<Rightarrow> string \<Rightarrow> string option \<Rightarrow> string" where
  "effective_id clk uid rid =
     (case rid of
        None \<Rightarrow> ''reminder_'' @ uid @ ''_'' @ str_int (stamp clk)
      | Some r \<Rightarrow> if r = [] then ''reminder_'' @ uid @ ''_'' @ str_int (stamp clk) else r)"

definition schedule_reminder ::
  "clock \<Rightarrow> string \<Rightarrow> string \<Rightarrow> string \<Rightarrow> datetime \<Rightarrow> string option \<Rightarrow> metadata option
     \<Rightarrow> service \<Rightarrow> (error + schedule_result) \<times> service" where
  "schedule_reminder clk uid tok txt t rid md s =
     (if \<not> firebase_app s then (Inl (ValueError Firebase_not_initialized), s)
      else
        case normalize_scheduled_time t of
          Inl e \<Rightarrow> (Inl e, s)
        | Inr st \<Rightarrow>
            if wall st \<le> utc_now clk
            then (Inl (ValueError (Must_be_in_future (wall st) (utc_now clk))), s)
            else
              let r = effective_id clk uid rid;
                  d = \<lparr>reminder_id = r, user_id = uid, fcm_token = tok,
                       reminder_text = txt, scheduled_time = wall st,
                       metadata = (case md of None \<Rightarrow> [] | Some m \<Rightarrow> m),
                       created_at = local_now clk, status = Scheduled,
                       sent_at = None, firebase_response = None,
                       error_text = None, cancelled_at = None\<rparr>;
                  s1 = store_reminder uid r d s
              in case scheduler s1 of
                   None \<Rightarrow> (Inl AttributeError, s1)
                 | Some sc \<Rightarrow>
                     (Inr \<lparr>res_reminder_id = r, scheduled_for = wall st,
                           notification_job = notification_job_id r\<rparr>,
                      s1\<lparr>scheduler := Some (add_job
                            \<lparr>job_id = notification_job_id r, run_date = wall st, args = d\<rparr>
                            sc)\<rparr>))"

text \<open>
  \<open>_send_scheduled_notification\<close>, from the point where the awaited send returns or
  raises: \<open>outcome\<close> is \<open>Inr response\<close> when it returns and \<open>Inl text\<close> when building
  or sending the message raises, and \<open>s\<close> is the service as it is at that point. The
  callback starts earlier, and other calls can run while it waits for the send; the
  transition system below keeps the two points apart. \<open>firebase_app\<close> never changes, so
  the test at the start of the callback is made here.
\<close>

definition send_scheduled_notification ::
  "clock \<Rightarrow> reminder \<Rightarrow> string + string \<Rightarrow> service \<Rightarrow> service" where
  "send_scheduled_notification clk d outcome s =
     (if \<not> firebase_app s then s
      else
        case lookup_reminder s (user_id d) (reminder_id d) of
          None \<Rightarrow> s
        | Some rec \<Rightarrow>
            (case outcome of
               Inr response \<Rightarrow>
                 store_reminder (user_id d) (reminder_id d)
                   (rec\<lparr>status := Sent, sent_at := Some (local_now clk),
                        firebase_response := Some response\<rparr>) s
             | Inl e \<Rightarrow>
                 store_reminder (user_id d) (reminder_id d)
                   (rec\<lparr>status := Failed, error_text := Some e\<rparr>) s))"

text \<open>
  \<open>cancel_reminder\<close>: the job is removed when there is one (a failure of the removal is
  logged only), the record, when there is one, is marked cancelled, and the time of the
  call is returned.
\<close>

definition cancel_reminder ::
  "clock \<Rightarrow> string \<Rightarrow> string \<Rightarrow> service \<Rightarrow> (error + int) \<times> service" where
  "cancel_reminder clk uid rid s =
     (let s1 = (case scheduler s of
                  None \<Rightarrow> s
                | Some sc \<Rightarrow> s\<lparr>scheduler := Some (remove_job (notification_job_id rid) sc)\<rparr>);
          s2 = (case lookup_reminder s1 uid rid of
                  None \<Rightarrow> s1
                | Some rec \<Rightarrow>
                    store_reminder uid rid
                      (rec\<lparr>status := Cancelled, cancelled_at := Some (local_now clk)\<rparr>) s1)
      in (Inr (local_now clk), s2))"

text \<open>
  The scheduler takes a job out of its store when the job's date trigger is due. Only a
  running scheduler does so.
\<close>

definition take_job :: "string \<Rightarrow> service \<Rightarrow> reminder job option \<times> service" where
  "take_job jid s =
     (case scheduler s of
        Some (Running js) \<Rightarrow>
          (case find (\<lambda>k. job_id k = jid) js of
             None \<Rightarrow> (None, s)
           | Some j \<Rightarrow> (Some j, s\<lparr>scheduler := Some (Running (remove_first jid js))\<rparr>))
      | _ \<Rightarrow> (None, s))"

text \<open>
  The engine as a transition system: the service, and the arguments of the callbacks
  that have started and wait for their send. \<open>Timer\<close> is the trigger of a stored job
  being due in time: the job leaves the store and its callback starts. \<open>Misfire\<close> is
  the trigger being noticed too late: the job leaves the store and no callback runs.
  \<open>Send_done\<close> is the send of the \<open>n\<close>-th waiting callback returning or raising, upon
  which the callback writes the status. Calls of \<open>schedule_reminder\<close> and
  \<open>cancel_reminder\<close> can come between a \<open>Timer\<close> and its \<open>Send_done\<close>.
\<close>

record system =
  svc :: service
  in_flight :: "reminder list"

definition boot :: "service \<Rightarrow> system" where
  "boot s = \<lparr>svc = s, in_flight = []\<rparr>"

datatype event =
    Schedule clock string string string datetime "string option" "metadata option"
  | Cancel clock string string
  | Timer string
  | Misfire string
  | Send_done clock nat "string + string"

fun step :: "event \<Rightarrow> system \<Rightarrow> system" where
  "step (Schedule clk uid tok txt t rid md) sys =
     sys\<lparr>svc := snd (schedule_reminder clk uid tok txt t rid md (svc sys))\<rparr>"
| "step (Cancel clk uid rid) sys = sys\<lparr>svc := snd (cancel_reminder clk uid rid (svc sys))\<rparr>"
| "step (Timer jid) sys =
     (case take_job jid (svc sys) of
        (None, s') \<Rightarrow> sys
      | (Some j, s') \<Rightarrow> \<lparr>svc = s', in_flight = in_flight sys @ [args j]\<rparr>)"
| "step (Misfire jid) sys = sys\<lparr>svc := snd (take_job jid (svc sys))\<rparr>"
| "step (Send_done clk n outcome) sys =
     (if n < length (in_flight sys)
      then \<lparr>svc = send_scheduled_notification clk (in_flight sys ! n) outcome (svc sys),
            in_flight = take n (in_flight sys) @ drop (Suc n) (in_flight sys)\<rparr>
      else sys)"

definition run :: "event list \<Rightarrow> system \<Rightarrow> system" where
  "run evs sys = foldl (\<lambda>sys e. step e sys) sys evs"

definition pending :: "service \<Rightarrow> string \<Rightarrow> reminder job list" where
  "pending s rid =
     (case scheduler s of
        None \<Rightarrow> []
      | Some sc \<Rightarrow> filter (\<lambda>k. job_id k = notification_job_id rid) (jobs_of sc))"

definition terminal :: "status \<Rightarrow> bool" where
  "terminal st = (st = Sent \<or> st = Cancelled \<or> st = Failed)"

definition status_of :: "service \<Rightarrow> string \<Rightarrow> string \<Rightarrow> status option" where
  "status_of s uid rid = map_option status (lookup_reminder s uid rid)"

text \<open>
  \<open>schedule_reminder\<close> gets past its checks: Firebase is initialised, the time can be
  normalised and the normalised time is after the current time.
\<close>

definition accepted :: "clock \<Rightarrow> datetime \<Rightarrow> service \<Rightarrow> bool" where
  "accepted clk t s =
     (firebase_app s
      \<and> (case normalize_scheduled_time t of Inl e \<Rightarrow> False | Inr st \<Rightarrow> utc_now clk < wall st))"

text \<open>
  The dictionary \<open>reminder_data\<close> that \<open>schedule_reminder\<close> builds for a normalised
  time with the reading \<open>w\<close>, and the job it hands to the scheduler.
\<close>

definition reminder_data ::
  "clock \<Rightarrow> string \<Rightarrow> string \<Rightarrow> string \<Rightarrow> int \<Rightarrow> string option \<Rightarrow> metadata option \<Rightarrow> reminder" where
  "reminder_data clk uid tok txt w rid md =
     \<lparr>reminder_id = effective_id clk uid rid, user_id = uid, fcm_token = tok,
      reminder_text = txt, scheduled_time = w,
      metadata = (case md of None \<Rightarrow> [] | Some m \<Rightarrow> m),
      created_at = local_now clk, status = Scheduled,
      sent_at = None, firebase_response = None,
      error_text = None, cancelled_at = None\<rparr>"

definition reminder_job ::
  "clock \<Rightarrow> string \<Rightarrow> string \<Rightarrow> string \<Rightarrow> int \<Rightarrow> string option \<Rightarrow> metadata option
     \<Rightarrow> reminder job" where
  "reminder_job clk uid tok txt w rid md =
     \<lparr>job_id = notification_job_id (effective_id clk uid rid), run_date = w,
      args = reminder_data clk uid tok txt w rid md\<rparr>"





section \<open>Text and regular expressions\<close>

text \<open>
  A \<open>string\<close> is a Python \<open>str\<close> whose code points are below 256, one \<open>char\<close>
  each. \<open>is_space\<close> is both \<open>str.isspace\<close> and the class \<open>\s\<close> on that range,
  \<open>lower_char\<close> is \<open>str.lower\<close> on one character.
\<close>

definition is_space :: "char \<Rightarrow> bool" where
  "is_space c = ((of_char c :: nat) \<in> {9, 10, 11, 12, 13, 28, 29, 30, 31, 32, 133, 160})"

definition is_digit :: "char \<Rightarrow> bool" where
  "is_digit c = (48 \<le> (of_char c :: nat) \<and> (of_char c :: nat) \<le> 57)"

definition lower_char :: "char \<Rightarrow> char" where
  "lower_char c =
     (let n = (of_char c :: nat)
      in if (65 \<le> n \<and> n \<le> 90) \<or> (192 \<le> n \<and> n \<le> 222 \<and> n \<noteq> 215)
         then char_of (n + 32) else c)"

definition is_letter_az :: "char \<Rightarrow> bool" where
  "is_letter_az c =
     (97 \<le> (of_char (lower_char c) :: nat) \<and> (of_char (lower_char c) :: nat) \<le> 122)"

definition lower :: "string \<Rightarrow> string" where
  "lower s = map lower_char s"

definition strip :: "string \<Rightarrow> string" where
  "strip s = rev (dropWhile is_space (rev (dropWhile is_space s)))"

fun contains :: "string \<Rightarrow> string \<Rightarrow> bool" where
  "contains sub [] = (sub = [])"
| "contains sub (c # cs) = (take (length sub) (c # cs) = sub \<or> contains sub cs)"

fun join :: "string \<Rightarrow> string list \<Rightarrow> string" where
  "join sep [] = []"
| "join sep [x] = x"
| "join sep (x # y # ys) = x @ sep @ join sep (y # ys)"

text \<open>
  The fragment of Python's \<open>re\<close> syntax that the patterns of \<open>intent_parser.py\<close> use,
  all of them compiled with \<open>re.IGNORECASE\<close>: literals, the classes \<open>.\<close>, \<open>\d\<close>,
  \<open>\s\<close>, \<open>[a-z]\<close> and \<open>[a-z\s]\<close>, sequence, alternation, the optional group
  \<open>(?:r)?\<close>, repetition of a class between two bounds (greedy or lazy), the capturing
  group and \<open>$\<close>. No pattern has more than one capturing group.
\<close>

datatype cclass = Dot | Digit | Space | Letter | Letter_or_space

datatype regex =
    Lit string
  | Seq regex regex
  | Alt regex regex
  | Opt regex
  | Rep cclass nat "nat option" bool
  | Grp regex
  | Eos

fun in_class :: "cclass \<Rightarrow> char \<Rightarrow> bool" where
  "in_class Dot c = ((of_char c :: nat) \<noteq> 10)"
| "in_class Digit c = is_digit c"
| "in_class Space c = is_space c"
| "in_class Letter c = is_letter_az c"
| "in_class Letter_or_space c = (is_letter_az c \<or> is_space c)"

text \<open>
  \<open>rmatch r s\<close> lists the ways \<open>r\<close> matches a prefix of \<open>s\<close>, in the order in which a
  backtracking matcher tries them: each way is the rest of the input and the text of
  group 1 if the group took part. The head of the list is the match \<open>re\<close> reports.
\<close>

fun rmatch :: "regex \<Rightarrow> string \<Rightarrow> (string \<times> string option) list" where
  "rmatch (Lit l) s =
     (if length l \<le> length s \<and> map lower_char (take (length l) s) = map lower_char l
      then [(drop (length l) s, None)] else [])"
| "rmatch (Seq a b) s =
     concat (map (\<lambda>(r, g). map (\<lambda>(r', g'). (r', case g' of None \<Rightarrow> g | Some x \<Rightarrow> Some x))
                               (rmatch b r))
                 (rmatch a s))"
| "rmatch (Alt a b) s = rmatch a s @ rmatch b s"
| "rmatch (Opt a) s = rmatch a s @ [(s, None)]"
| "rmatch (Rep c lo hi greedy) s =
     (let n = length (takeWhile (in_class c) s);
          m = (case hi of None \<Rightarrow> n | Some h \<Rightarrow> min h n);
          ks = [lo ..< Suc m]
      in map (\<lambda>k. (drop k s, None)) (if greedy then rev ks else ks))"
| "rmatch (Grp a) s = map (\<lambda>(r, g). (r, Some (take (length s - length r) s))) (rmatch a s)"
| "rmatch Eos s = (if s = [] \<or> s = [char_of (10::nat)] then [(s, None)] else [])"

text \<open>
  \<open>re.search\<close>: the leftmost start at which the pattern matches. \<open>None\<close> is no match,
  \<open>Some g\<close> a match whose \<open>group(1)\<close> is \<open>g\<close>.
\<close>

fun re_search :: "regex \<Rightarrow> string \<Rightarrow> string option option" where
  "re_search r [] = (case rmatch r [] of [] \<Rightarrow> None | (rest, g) # _ \<Rightarrow> Some g)"
| "re_search r (c # cs) =
     (case rmatch r (c # cs) of [] \<Rightarrow> re_search r cs | (rest, g) # _ \<Rightarrow> Some g)"

fun seq :: "regex list \<Rightarrow> regex" where
  "seq [] = Lit []"
| "seq [r] = r"
| "seq (r # rs) = Seq r (seq rs)"

fun alts :: "string list \<Rightarrow> regex" where
  "alts [] = Lit []"
| "alts [l] = Lit l"
| "alts (l # ls) = Alt (Lit l) (alts ls)"

section \<open>Intents (schemas.py) and the intent parser (intent_parser.py)\<close>

datatype intent_type =
  SET_ALARM | DELETE_ALARM | SEARCH_FLIGHTS | BOOK_FLIGHT | GET_WEATHER | SEND_MESSAGE | UNKNOWN

fun intent_value :: "intent_type \<Rightarrow> string" where
  "intent_value SET_ALARM = ''set_alarm''"
| "intent_value DELETE_ALARM = ''delete_alarm''"
| "intent_value SEARCH_FLIGHTS = ''search_flights''"
| "intent_value BOOK_FLIGHT = ''book_flight''"
| "intent_value GET_WEATHER = ''get_weather''"
| "intent_value SEND_MESSAGE = ''send_message''"
| "intent_value UNKNOWN = ''unknown''"

definition all_intent_types :: "intent_type list" where
  "all_intent_types =
     [SET_ALARM, DELETE_ALARM, SEARCH_FLIGHTS, BOOK_FLIGHT, GET_WEATHER, SEND_MESSAGE, UNKNOWN]"

text \<open>
  The values of \<open>Dict[str, Any]\<close>: what \<open>json.loads\<close> returns and what the services put
  into their result dictionaries. A dictionary is the list of its items.
\<close>

datatype json =
    JNull
  | JBool bool
  | JNum real
  | JStr string
  | JArr "json list"
  | JObj "(string \<times> json) list"

type_synonym pydict = "(string \<times> json) list"

text \<open>Python's truth value of such a value, as \<open>if not x\<close> tests it.\<close>

fun truthy :: "json \<Rightarrow> bool" where
  "truthy JNull = False"
| "truthy (JBool b) = b"
| "truthy (JNum x) = (x \<noteq> 0)"
| "truthy (JStr s) = (s \<noteq> [])"
| "truthy (JArr xs) = (xs \<noteq> [])"
| "truthy (JObj kvs) = (kvs \<noteq> [])"

definition falsy_slot :: "json option \<Rightarrow> bool" where
  "falsy_slot v = (case v of None \<Rightarrow> True | Some x \<Rightarrow> \<not> truthy x)"

record intent =
  intent :: intent_type
  slots :: pydict
  confidence :: real
  original_text :: string

definition time_group :: regex where
  "time_group =
     Grp (seq [Rep Digit 1 (Some 2) True,
               Opt (Seq (Lit '':'') (Rep Digit 2 (Some 2) True)),
               Rep Space 0 None True,
               Opt (alts [''am'', ''pm''])])"

text \<open>\<open>_load_intent_patterns\<close>: the patterns of each intent, and the dictionary in its
  order.\<close>

definition set_alarm_patterns :: "regex list" where
  "set_alarm_patterns =
     [seq [Lit ''set '', Opt (seq [Lit ''a'', Opt (Lit ''n''), Lit '' '']), Lit ''alarm '',
           alts [''for'', ''at''], Lit '' '', time_group],
      seq [Lit ''wake me '', Opt (Lit ''up ''), alts [''at'', ''by''], Lit '' '', time_group],
      seq [Lit ''remind me '', alts [''at'', ''by''], Lit '' '', time_group]]"

definition delete_alarm_patterns :: "regex list" where
  "delete_alarm_patterns =
     [seq [Lit ''delete '', Opt (Lit ''the ''), Lit ''alarm''],
      seq [Lit ''cancel '', Opt (Lit ''the ''), Lit ''alarm''],
      seq [Lit ''remove '', Opt (Lit ''the ''), Lit ''alarm'']]"

definition search_flights_patterns :: "regex list" where
  "search_flights_patterns =
     [seq [alts [''find'', ''search'', ''show'', ''get''], Rep Dot 0 (Some 30) True,
           Lit ''flight'', Opt (Lit ''s'')],
      seq [Lit ''flight'', Opt (Lit ''s''), Rep Dot 0 (Some 30) True, alts [''from'', ''to'']],
      seq [alts [''book'', ''need''], Rep Dot 0 (Some 30) True, alts [''flight'', ''ticket'']]]"

definition get_weather_patterns :: "regex list" where
  "get_weather_patterns =
     [seq [Alt (seq [Lit ''what'', Opt (Lit [CHR 0x27]), Lit ''s''])
               (seq [Lit ''how'', Opt (Lit [CHR 0x27]), Lit ''s'']),
           Lit '' '', Opt (Lit ''the ''), Lit ''weather''],
      seq [Lit ''weather '', alts [''in'', ''for'', ''at'']],
      seq [Lit ''temperature '', alts [''in'', ''for'', ''at'']]]"

definition intent_patterns :: "(intent_type \<times> regex list) list" where
  "intent_patterns =
     [(SET_ALARM, set_alarm_patterns),
      (DELETE_ALARM, delete_alarm_patterns),
      (SEARCH_FLIGHTS, search_flights_patterns),
      (GET_WEATHER, get_weather_patterns)]"

definition from_pattern :: regex where
  "from_pattern =
     seq [Lit ''from'', Rep Space 1 None True, Grp (Rep Letter_or_space 1 None False),
          Alt (Seq (Rep Space 1 None True) (Lit ''to''))
            (Alt (Seq (Rep Space 1 None True) (Lit ''for''))
               (Alt (Seq (Rep Space 1 None True) (Lit ''on'')) Eos))]"

definition to_pattern :: regex where
  "to_pattern =
     seq [Lit ''to'', Rep Space 1 None True, Grp (Rep Letter_or_space 1 None False),
          Alt (Seq (Rep Space 1 None True) (Lit ''on''))
            (Alt (Seq (Rep Space 1 None True) (Lit ''for'')) Eos)]"

definition date_pattern :: regex where
  "date_pattern =
     seq [Opt (Seq (Lit ''on'') (Rep Space 1 None True)),
          Grp (seq [Rep Digit 1 (Some 2) True,
                    Opt (alts [''st'', ''nd'', ''rd'', ''th'']),
                    Rep Space 1 None True,
                    alts [''jan'', ''feb'', ''mar'', ''apr'', ''may'', ''jun'',
                          ''jul'', ''aug'', ''sep'', ''oct'', ''nov'', ''dec''],
                    Rep Letter 0 None True,
                    Rep Space 1 None True,
                    Rep Digit 4 (Some 4) True])]"

text \<open>\<open>_extract_flight_slots\<close>: the items are listed in the order they are inserted.\<close>

definition extract_flight_slots :: "string \<Rightarrow> pydict" where
  "extract_flight_slots t =
     (case re_search from_pattern t of
        Some (Some g) \<Rightarrow> [(''source'', JStr (strip g))] | _ \<Rightarrow> [])
     @ (case re_search to_pattern t of
        Some (Some g) \<Rightarrow> [(''destination'', JStr (strip g))] | _ \<Rightarrow> [])
     @ (case re_search date_pattern t of
        Some (Some g) \<Rightarrow> [(''date'', JStr g)] | _ \<Rightarrow> [])
     @ (if contains ''morning'' t then [(''time_window'', JStr ''morning'')]
        else if contains ''afternoon'' t then [(''time_window'', JStr ''afternoon'')]
        else if contains ''evening'' t then [(''time_window'', JStr ''evening'')]
        else if contains ''night'' t then [(''time_window'', JStr ''night'')]
        else [])"

text \<open>
  \<open>_extract_slots_from_pattern\<close>, given the group of the match (\<open>match.groups()\<close> is
  not empty exactly when the pattern has its group, and then the group took part).
\<close>

definition extract_slots_from_pattern :: "string \<Rightarrow> intent_type \<Rightarrow> string option \<Rightarrow> pydict" where
  "extract_slots_from_pattern t k g =
     (if k = SET_ALARM then (case g of None \<Rightarrow> [] | Some x \<Rightarrow> [(''time'', JStr x)])
      else if k = SEARCH_FLIGHTS then extract_flight_slots t
      else [])"

text \<open>\<open>_rule_based_parse\<close>: the two nested loops, the first match returns.\<close>

fun first_pattern :: "regex list \<Rightarrow> string \<Rightarrow> string option option" where
  "first_pattern [] t = None"
| "first_pattern (p # ps) t =
     (case re_search p t of None \<Rightarrow> first_pattern ps t | Some g \<Rightarrow> Some g)"

fun rule_loop :: "(intent_type \<times> regex list) list \<Rightarrow> string \<Rightarrow> intent option" where
  "rule_loop [] t = None"
| "rule_loop ((k, ps) # rest) t =
     (case first_pattern ps t of
        None \<Rightarrow> rule_loop rest t
      | Some g \<Rightarrow>
          Some \<lparr>intent = k, slots = extract_slots_from_pattern t k g,
                confidence = 9 / 10, original_text = t\<rparr>)"

definition rule_based_parse :: "string \<Rightarrow> intent option" where
  "rule_based_parse t = rule_loop intent_patterns t"

text \<open>No pattern of the listed intents matches the text.\<close>

definition no_match :: "(intent_type \<times> regex list) list \<Rightarrow> string \<Rightarrow> bool" where
  "no_match pats t = (\<forall>k ps p. (k, ps) \<in> set pats \<and> p \<in> set ps \<longrightarrow> re_search p t = None)"

text \<open>
  The generative classifier is a collaborator. \<open>complete env t\<close> is what the chat call
  and \<open>json.loads\<close> make of the request for the text \<open>t\<close>: the call raises, the
  content is no JSON text, or a JSON value comes back. \<open>to_float env\<close> is the
  validation of the \<open>confidence\<close> field of \<open>Intent\<close>, \<open>None\<close> when it rejects the value.
\<close>

datatype llm_reply = Llm_raises | Llm_malformed | Llm_json json

record llm_env =
  complete :: "string \<Rightarrow> llm_reply"
  to_float :: "json \<Rightarrow> real option"

definition unknown_intent :: "string \<Rightarrow> intent" where
  "unknown_intent t = \<lparr>intent = UNKNOWN, slots = [], confidence = 0, original_text = t\<rparr>"

text \<open>\<open>IntentType(intent_str)\<close> with its \<open>except ValueError\<close>.\<close>

definition intent_type_of :: "json \<Rightarrow> intent_type" where
  "intent_type_of v =
     (case v of
        JStr l \<Rightarrow> (case find (\<lambda>k. intent_value k = l) all_intent_types of
                    None \<Rightarrow> UNKNOWN | Some k \<Rightarrow> k)
      | _ \<Rightarrow> UNKNOWN)"

text \<open>
  The body of the \<open>try\<close> in \<open>_llm_parse\<close>, with what it raises: the call fails, the
  content is no JSON text, the value is no dictionary and has no \<open>get\<close>, or the
  validation of \<open>Intent\<close> rejects slots that are no dictionary or a confidence that is
  no number.
\<close>

datatype parse_failure = Api_error | Json_decode_error | Attribute_error | Validation_error

definition llm_parse_body :: "llm_env \<Rightarrow> string \<Rightarrow> parse_failure + intent" where
  "llm_parse_body env t =
     (case complete env t of
        Llm_raises \<Rightarrow> Inl Api_error
      | Llm_malformed \<Rightarrow> Inl Json_decode_error
      | Llm_json (JObj result) \<Rightarrow>
          (let intent_type = intent_type_of
                 (case map_of result ''intent'' of None \<Rightarrow> JStr ''unknown'' | Some v \<Rightarrow> v);
               sl = (case map_of result ''slots'' of
                       None \<Rightarrow> Some [] | Some (JObj kvs) \<Rightarrow> Some kvs | Some _ \<Rightarrow> None);
               cf = (case map_of result ''confidence'' of
                       None \<Rightarrow> Some (7 / 10) | Some v \<Rightarrow> to_float env v)
           in case (sl, cf) of
                (Some kvs, Some c) \<Rightarrow>
                  Inr \<lparr>intent = intent_type, slots = kvs, confidence = c, original_text = t\<rparr>
              | _ \<Rightarrow> Inl Validation_error)
      | Llm_json _ \<Rightarrow> Inl Attribute_error)"

text \<open>\<open>_llm_parse\<close>: the \<open>except Exception\<close> turns whatever the body raises into the
  unknown intent.\<close>

definition llm_parse :: "llm_env \<Rightarrow> string \<Rightarrow> intent" where
  "llm_parse env t =
     (case llm_parse_body env t of Inl e \<Rightarrow> unknown_intent t | Inr i \<Rightarrow> i)"

text \<open>
  \<open>parse\<close>: the result and the number of calls made to the classifier.
\<close>

definition parse :: "llm_env \<Rightarrow> string \<Rightarrow> intent \<times> nat" where
  "parse env t =
     (let text_lower = strip (lower t)
      in case rule_based_parse text_lower of
           Some i \<Rightarrow> if confidence i > 8 / 10 then (i, 0) else (llm_parse env t, 1)
         | None \<Rightarrow> (llm_parse env t, 1))"

section \<open>Alarms (reminders.py)\<close>

text \<open>
  A \<open>pytz\<close> zone, as far as the service uses it: \<open>utcoffset_at z u\<close> is the offset in
  force at the UTC instant \<open>u\<close> (what \<open>datetime.now(tz)\<close> carries), and
  \<open>localize_offset z w\<close> is the offset of the fixed-offset \<open>tzinfo\<close> that
  \<open>tz.localize\<close> attaches to the naive reading \<open>w\<close>. Arithmetic on the localized value
  keeps that \<open>tzinfo\<close>.
\<close>

record tzone =
  utcoffset_at :: "int \<Rightarrow> int"
  localize_offset :: "int \<Rightarrow> int"

record alarm_doc =
  doc_user_id :: string
  alarm_time :: int
  repeat :: bool
  label :: "string option"
  active :: bool
  doc_created_at :: int

text \<open>
  What the service gets from outside: the UTC instant of the call, the zone database
  (\<open>None\<close>: \<open>pytz.timezone\<close> raises), the hour and minute of
  \<open>parser.parse(time_str.strip().upper())\<close> (\<open>None\<close>: it raises), the insert into the
  alarms collection (\<open>None\<close>: the database raises, otherwise the new id) and the ISO
  text of a time.
\<close>

record alarm_env =
  alarm_utc_now :: int
  pytz_timezone :: "string \<Rightarrow> tzone option"
  parsed_time :: "string \<Rightarrow> (nat \<times> nat) option"
  insert_one :: "alarm_doc \<Rightarrow> string option"
  isoformat :: "int \<Rightarrow> string"

record alarm_state =
  alarms :: "(string \<times> alarm_doc) list"
  alarm_jobs :: "(string \<times> string) sched"

text \<open>
  \<open>_parse_alarm_time\<close>. Every step is inside the \<open>try\<close>, so a zone or a time that is
  no string, an unknown zone, an unparsable time and a value outside the range of
  \<open>datetime\<close> all give \<open>None\<close>. The result is the UTC reading of the alarm.
\<close>

definition parse_alarm_time :: "alarm_env \<Rightarrow> json \<Rightarrow> json \<Rightarrow> int option" where
  "parse_alarm_time env time_str timezone =
     (case (timezone, time_str) of
        (JStr z, JStr ts) \<Rightarrow>
          (case pytz_timezone env z of
             None \<Rightarrow> None
           | Some tz \<Rightarrow>
               (case parsed_time env ts of
                  None \<Rightarrow> None
                | Some (h, m) \<Rightarrow>
                    (let now_utc = alarm_utc_now env;
                         now_wall = now_utc + utcoffset_at tz now_utc;
                         today = (now_wall div DAY) * DAY;
                         naive = today + int h * 3600000000 + int m * 60000000;
                         off = localize_offset tz naive;
                         alarm_dt = (if naive - off \<le> now_utc then naive + DAY else naive)
                     in if h < 24 \<and> m < 60 \<and> alarm_dt \<le> DT_MAX
                           \<and> DT_MIN \<le> alarm_dt - off \<and> alarm_dt - off \<le> DT_MAX
                        then Some (alarm_dt - off) else None)))
      | _ \<Rightarrow> None)"

definition two_digits :: "nat \<Rightarrow> string" where
  "two_digits n = [char_of (48 + n div 10 mod 10), char_of (48 + n mod 10)]"

text \<open>\<open>strftime('%I:%M %p')\<close> of a reading.\<close>

definition strftime_IMp :: "int \<Rightarrow> string" where
  "strftime_IMp w =
     (let secs = nat ((w mod DAY) div 1000000);
          h = secs div 3600;
          m = (secs div 60) mod 60;
          h12 = (if h mod 12 = 0 then 12 else h mod 12)
      in two_digits h12 @ '':'' @ two_digits m @ '' '' @ (if h < 12 then ''AM'' else ''PM''))"

definition set_alarm ::
  "alarm_env \<Rightarrow> string \<Rightarrow> json \<Rightarrow> json \<Rightarrow> bool \<Rightarrow> string option \<Rightarrow> alarm_state
     \<Rightarrow> pydict \<times> alarm_state" where
  "set_alarm env uid time timezone rep lbl st =
     (case parse_alarm_time env time timezone of
        None \<Rightarrow>
          ([(''status'', JStr ''error''),
            (''message'', JStr (''I couldn'' @ [CHR 0x27]
                @ ''t understand that time format. Please try again.''))], st)
      | Some t \<Rightarrow>
          (let doc = \<lparr>doc_user_id = uid, alarm_time = t, repeat = rep, label = lbl,
                      active = True, doc_created_at = alarm_utc_now env\<rparr>
           in case insert_one env doc of
                None \<Rightarrow>
                  ([(''status'', JStr ''error''),
                    (''message'', JStr ''Failed to set alarm. Please try again.'')], st)
              | Some alarm_id \<Rightarrow>
                  ([(''status'', JStr ''success''),
                    (''alarm_id'', JStr alarm_id),
                    (''alarm_time'', JStr (isoformat env t)),
                    (''message'', JStr (''Alarm set for '' @ strftime_IMp t))],
                   st\<lparr>alarms := alarms st @ [(alarm_id, doc)],
                      alarm_jobs := add_job
                        \<lparr>job_id = ''alarm_'' @ alarm_id, run_date = t, args = (alarm_id, uid)\<rparr>
                        (alarm_jobs st)\<rparr>)))"

section \<open>The command router (command_router.py)\<close>

text \<open>
  The flight search and the deletion of an alarm are taken as they come: \<open>Inl e\<close> is
  an exception whose text is \<open>e\<close>. An absent slot is passed on as \<open>None\<close>.
  \<open>no_get_text v\<close> is the text of the \<open>AttributeError\<close> that \<open>v.get\<close> raises on a
  value that is no dictionary, which names the type of \<open>v\<close>.
\<close>

record router_env =
  alarm_service :: alarm_env
  no_get_text :: "json \<Rightarrow> string"
  search_flights ::
    "json option \<Rightarrow> json option \<Rightarrow> json option \<Rightarrow> json option \<Rightarrow> json \<Rightarrow> string + pydict"
  delete_recent_alarm :: "string \<Rightarrow> alarm_state \<Rightarrow> (string + pydict) \<times> alarm_state"

definition handle_set_alarm ::
  "router_env \<Rightarrow> intent \<Rightarrow> string \<Rightarrow> pydict \<Rightarrow> alarm_state
     \<Rightarrow> (string + pydict) \<times> alarm_state" where
  "handle_set_alarm env i uid user_context st =
     (case map_of (slots i) ''time'' of
        None \<Rightarrow>
          (Inr [(''status'', JStr ''missing_slots''),
                (''message'',
                 JStr ''I need a time to set the alarm. When would you like to wake up?'')], st)
      | Some time \<Rightarrow>
          if \<not> truthy time
          then (Inr [(''status'', JStr ''missing_slots''),
                     (''message'',
                      JStr ''I need a time to set the alarm. When would you like to wake up?'')],
                st)
          else
            (case (case map_of user_context ''preferences'' of
                     None \<Rightarrow> Some [] | Some (JObj p) \<Rightarrow> Some p | Some _ \<Rightarrow> None) of
               None \<Rightarrow>
                 (Inl (no_get_text env
                         (case map_of user_context ''preferences'' of
                            None \<Rightarrow> JNull | Some v \<Rightarrow> v)), st)
             | Some preferences \<Rightarrow>
                 (let timezone = (case map_of preferences ''timezone'' of
                                    None \<Rightarrow> JStr ''UTC'' | Some z \<Rightarrow> z);
                      (result, st') = set_alarm (alarm_service env) uid time timezone False None st
                  in (Inr result, st'))))"

definition missing_slots :: "intent \<Rightarrow> string list" where
  "missing_slots i =
     (if falsy_slot (map_of (slots i) ''source'') then [''source city''] else [])
     @ (if falsy_slot (map_of (slots i) ''destination'') then [''destination city''] else [])
     @ (if falsy_slot (map_of (slots i) ''date'') then [''travel date''] else [])"

definition handle_search_flights ::
  "router_env \<Rightarrow> intent \<Rightarrow> string \<Rightarrow> pydict \<Rightarrow> string + pydict" where
  "handle_search_flights env i uid user_context =
     (let source = map_of (slots i) ''source'';
          destination = map_of (slots i) ''destination'';
          date = map_of (slots i) ''date'';
          time_window = map_of (slots i) ''time_window'';
          missing = missing_slots i
      in if missing \<noteq> []
         then Inr [(''status'', JStr ''missing_slots''),
                   (''message'',
                    JStr (''I need the following information: '' @ join '', '' missing))]
         else search_flights env source destination date time_window
                (case map_of user_context ''intent_specific'' of
                   None \<Rightarrow> JObj [] | Some v \<Rightarrow> v))"

definition handle_get_weather :: "intent \<Rightarrow> string \<Rightarrow> pydict" where
  "handle_get_weather i uid =
     [(''status'', JStr ''not_implemented''), (''message'', JStr ''Weather service coming soon!'')]"

text \<open>\<open>route\<close>: the dispatch inside the \<open>try\<close>, and the \<open>except\<close> that turns an exception
  into an error result.\<close>

definition route ::
  "router_env \<Rightarrow> intent \<Rightarrow> string \<Rightarrow> pydict \<Rightarrow> alarm_state \<Rightarrow> pydict \<times> alarm_state" where
  "route env i uid user_context st =
     (let (r, st') =
            (if intent i = SET_ALARM then handle_set_alarm env i uid user_context st
             else if intent i = DELETE_ALARM then delete_recent_alarm env uid st
             else if intent i = SEARCH_FLIGHTS
                  then (handle_search_flights env i uid user_context, st)
             else if intent i = GET_WEATHER then (Inr (handle_get_weather i uid), st)
             else (Inr [(''status'', JStr ''unknown_intent''),
                        (''message'',
                         JStr (''I'' @ [CHR 0x27] @ ''m not sure how to help with that yet.''))],
                   st))
      in (case r of
            Inl e \<Rightarrow> [(''status'', JStr ''error''), (''message'', JStr e)]
          | Inr d \<Rightarrow> d,
          st'))"

definition message_of :: "pydict \<Rightarrow> string" where
  "message_of d = (case map_of d ''message'' of Some (JStr m) \<Rightarrow> m | _ \<Rightarrow> [])"

section \<open>Speech synthesis (tts.py) and the orchestrator (orchestrator.py)\<close>

text \<open>
  \<open>text_to_speech\<close>: \<open>speech t\<close> is the base64 text of the audio the speech API returns
  for \<open>t\<close>, \<open>None\<close> when the call or the encoding raises; the \<open>except\<close> returns the
  empty string.
\<close>

definition text_to_speech :: "(string \<Rightarrow> string option) \<Rightarrow> string \<Rightarrow> string" where
  "text_to_speech speech t = (case speech t of None \<Rightarrow> [] | Some audio_base64 \<Rightarrow> audio_base64)"

record conversation_request =
  req_user_id :: string
  req_audio :: "string option"
  req_text :: "string option"

record conversation_response =
  success :: bool
  text_response :: string
  audio_response :: "string option"
  response_intent :: string
  response_confidence :: real
  data :: "pydict option"

text \<open>
  The services the orchestrator holds. Each stage either returns or raises (\<open>Inl e\<close>,
  \<open>None\<close> for the transcription, \<open>Some e\<close> for the storing of the turn), whatever the
  service behind it does.
\<close>

record pipeline =
  speech_to_text :: "string \<Rightarrow> string option"
  parse_stage :: "string \<Rightarrow> string + intent"
  get_user_context :: "string \<Rightarrow> intent_type \<Rightarrow> string + pydict"
  store_conversation :: "string \<Rightarrow> string \<Rightarrow> intent_type \<Rightarrow> string option"
  route_stage :: "intent \<Rightarrow> string \<Rightarrow> pydict \<Rightarrow> string + pydict"
  build_response :: "intent \<Rightarrow> pydict \<Rightarrow> pydict \<Rightarrow> string + string"
  speech_create :: "string \<Rightarrow> string option"

definition get_text_input :: "pipeline \<Rightarrow> conversation_request \<Rightarrow> string + string" where
  "get_text_input p request =
     (if req_text request \<noteq> None \<and> req_text request \<noteq> Some []
      then Inr (case req_text request of Some t \<Rightarrow> t | None \<Rightarrow> [])
      else if req_audio request \<noteq> None \<and> req_audio request \<noteq> Some []
      then (case speech_to_text p (case req_audio request of Some a \<Rightarrow> a | None \<Rightarrow> []) of
              None \<Rightarrow> Inl ''Failed to transcribe audio''
            | Some t \<Rightarrow> Inr t)
      else Inl (''Either '' @ [CHR 0x27] @ ''text'' @ [CHR 0x27] @ '' or '' @ [CHR 0x27]
                @ ''audio'' @ [CHR 0x27] @ '' must be provided''))"

text \<open>Steps 1 to 6 of \<open>process_conversation\<close>, the body of the \<open>try\<close> up to the reply.\<close>

definition run_stages ::
  "pipeline \<Rightarrow> conversation_request \<Rightarrow> string + (string \<times> intent \<times> pydict)" where
  "run_stages p request =
     (case get_text_input p request of
        Inl e \<Rightarrow> Inl e
      | Inr t \<Rightarrow>
          (case parse_stage p t of
             Inl e \<Rightarrow> Inl e
           | Inr i \<Rightarrow>
               (case get_user_context p (req_user_id request) (intent i) of
                  Inl e \<Rightarrow> Inl e
                | Inr user_context \<Rightarrow>
                    (case store_conversation p (req_user_id request) t (intent i) of
                       Some e \<Rightarrow> Inl e
                     | None \<Rightarrow>
                         (case route_stage p i (req_user_id request) user_context of
                            Inl e \<Rightarrow> Inl e
                          | Inr action_result \<Rightarrow>
                              (case build_response p i action_result user_context of
                                 Inl e \<Rightarrow> Inl e
                               | Inr reply \<Rightarrow>
                                   Inr (reply, i, action_result)))))))"

definition error_response :: string where
  "error_response =
     ''I apologize, but I encountered an error processing your request. Please try again.''"

text \<open>
  \<open>process_conversation\<close>: the response, and the texts handed to the speech synthesis
  during the call, in order.
\<close>

definition process_conversation ::
  "pipeline \<Rightarrow> conversation_request \<Rightarrow> conversation_response \<times> string list" where
  "process_conversation p request =
     (case run_stages p request of
        Inr (reply, i, action_result) \<Rightarrow>
          (\<lparr>success = True,
            text_response = reply,
            audio_response = Some (text_to_speech (speech_create p) reply),
            response_intent = intent_value (intent i),
            response_confidence = confidence i,
            data = Some action_result\<rparr>,
           [reply])
      | Inl e \<Rightarrow>
          (\<lparr>success = False,
            text_response = error_response,
            audio_response = Some (text_to_speech (speech_create p) error_response),
            response_intent = ''error'',
            response_confidence = 0,
            data = Some [(''error'', JStr e)]\<rparr>,
           [error_response]))"

section \<open>Example data\<close>

text \<open>
  Readings on 2026-11-04: the clock at 12:00 and at 13:00 UTC, the naive times 18:00 and
  20:00, 23:30 at offset +05:30 (18:00 UTC) and the naive time 09:00.
\<close>

definition noon :: clock where
  "noon = \<lparr>utc_now = 63929390400000000, local_now = 63929390400000000, stamp = 1793793600\<rparr>"

definition one_pm :: clock where
  "one_pm = \<lparr>utc_now = 63929394000000000, local_now = 63929394000000000, stamp = 1793797200\<rparr>"

definition six_pm :: datetime where
  "six_pm = \<lparr>wall = 63929412000000000, tzinfo = None\<rparr>"

definition eight_pm :: datetime where
  "eight_pm = \<lparr>wall = 63929419200000000, tzinfo = None\<rparr>"

definition half_past_eleven_pm_ist :: datetime where
  "half_past_eleven_pm_ist = \<lparr>wall = 63929431800000000, tzinfo = Some 19800000000\<rparr>"

definition nine_am :: datetime where
  "nine_am = \<lparr>wall = 63929379600000000, tzinfo = None\<rparr>"

text \<open>
  Two classifiers: one whose call always raises, and one that answers every request with
  the label \<open>play_music\<close>, which is no intent type.
\<close>

definition offline_llm :: llm_env where
  "offline_llm = \<lparr>complete = (\<lambda>t. Llm_raises), to_float = (\<lambda>v. None)\<rparr>"

definition music_llm :: llm_env where
  "music_llm =
     \<lparr>complete = (\<lambda>t. Llm_json (JObj [(''intent'', JStr ''play_music''),
                                       (''slots'', JObj []),
                                       (''confidence'', JNum (95 / 100))])),
      to_float = (\<lambda>v. case v of JNum x \<Rightarrow> Some x | _ \<Rightarrow> None)\<rparr>"

text \<open>
  Zones: UTC, and New York as it is between March 2026 and March 2027, where summer time
  ends on 2026-11-01 at 06:00 UTC (02:00 local time becomes 01:00); \<open>localize\<close> reads
  a local time from 01:00 of that day on as standard time.
\<close>

definition utc_zone :: tzone where
  "utc_zone = \<lparr>utcoffset_at = (\<lambda>u. 0), localize_offset = (\<lambda>w. 0)\<rparr>"

definition new_york_2026 :: tzone where
  "new_york_2026 =
     \<lparr>utcoffset_at = (\<lambda>u. if u < 63929109600000000 then - 14400000000 else - 18000000000),
      localize_offset = (\<lambda>w. if w < 63929091600000000 then - 14400000000 else - 18000000000)\<rparr>"

definition zones :: "string \<Rightarrow> tzone option" where
  "zones z =
     (if z = ''UTC'' then Some utc_zone
      else if z = ''America/New_York'' then Some new_york_2026
      else None)"

definition clock_times :: "string \<Rightarrow> (nat \<times> nat) option" where
  "clock_times ts =
     (if ts = ''12:30 am'' then Some (0, 30)
      else if ts = ''7 am'' then Some (7, 0)
      else None)"

text \<open>
  The alarm service on 2026-11-02 at 04:45 UTC, which is 23:45 on 2026-11-01 in New York,
  after the end of summer time. \<open>str_int\<close> stands for the ISO text of a time.
\<close>

definition november_night :: alarm_env where
  "november_night =
     \<lparr>alarm_utc_now = 63929191500000000,
      pytz_timezone = zones,
      parsed_time = clock_times,
      insert_one = (\<lambda>doc. Some ''alarm-1''),
      isoformat = str_int\<rparr>"

definition sample_router :: router_env where
  "sample_router =
     \<lparr>alarm_service = november_night,
      no_get_text = (\<lambda>v. [CHR 0x27] @ (case v of JStr x \<Rightarrow> ''str'' | JArr xs \<Rightarrow> ''list''
                                          | JBool b \<Rightarrow> ''bool'' | JNull \<Rightarrow> ''NoneType''
                                          | _ \<Rightarrow> ''float'')
                           @ [CHR 0x27] @ '' object has no attribute '' @ [CHR 0x27] @ ''get''
                           @ [CHR 0x27]),
      search_flights = (\<lambda>source destination date time_window preferences.
         Inr [(''status'', JStr ''success''), (''flights'', JArr [])]),
      delete_recent_alarm = (\<lambda>uid st.
         (Inr [(''status'', JStr ''not_found''),
               (''message'', JStr (''You don'' @ [CHR 0x27] @ ''t have any active alarms.''))], st))\<rparr>"

definition no_alarms :: alarm_state where
  "no_alarms = \<lparr>alarms = [], alarm_jobs = Running []\<rparr>"

text \<open>
  A pipeline whose transcription and speech synthesis fail, and a request with neither
  text nor audio.
\<close>

definition sample_pipeline :: pipeline where
  "sample_pipeline =
     \<lparr>speech_to_text = (\<lambda>audio. None),
      parse_stage = (\<lambda>t. Inr (fst (parse offline_llm t))),
      get_user_context = (\<lambda>uid k. Inr [(''preferences'', JObj []),
                                         (''recent_conversations'', JArr [])]),
      store_conversation = (\<lambda>uid t k. None),
      route_stage = (\<lambda>i uid user_context.
         Inr (fst (route sample_router i uid user_context no_alarms))),
      build_response = (\<lambda>i action_result user_context. Inr (message_of action_result)),
      speech_create = (\<lambda>t. None)\<rparr>"

definition empty_request :: conversation_request where
  "empty_request = \<lparr>req_user_id = ''u1'', req_audio = None, req_text = None\<rparr>"

definition at_six_pm :: clock where
  "at_six_pm = \<lparr>utc_now = 63929412000000000, local_now = 63929412000000000, stamp = 1793815200\<rparr>"

definition at_eight_pm :: clock where
  "at_eight_pm = \<lparr>utc_now = 63929419200000000, local_now = 63929419200000000, stamp = 1793822400\<rparr>"

text \<open>
  A reminder scheduled at noon for 18:00 on a running scheduler, and the same reminder
  after its notification was delivered at 18:00.
\<close>

definition booked :: service where
  "booked =
     svc (run [Schedule noon ''u1'' ''token-0123456789'' ''tea'' six_pm (Some ''r1'') None]
            (boot (new_service True Started)))"

definition delivered :: service where
  "delivered =
     svc (run [Schedule noon ''u1'' ''token-0123456789'' ''tea'' six_pm (Some ''r1'') None,
               Timer ''firebase_reminder_r1'',
               Send_done at_six_pm 0 (Inr ''message-1'')]
            (boot (new_service True Started)))"

text \<open>
  The same reminder cancelled at 13:00, and cancelled while the send of its notification
  was under way: the timer went off at 18:00, the cancel came in, then the send returned.
\<close>

definition called_off :: service where
  "called_off = snd (cancel_reminder one_pm ''u1'' ''r1'' booked)"

definition raced :: system where
  "raced =
     run [Schedule noon ''u1'' ''token-0123456789'' ''tea'' six_pm (Some ''r1'') None,
          Timer ''firebase_reminder_r1'',
          Cancel at_six_pm ''u1'' ''r1'']
       (boot (new_service True Started))"


text \<open>
  A classifier whose answer has slots that are no dictionary, and a pipeline whose
  speech synthesis succeeds.
\<close>

definition sloppy_llm :: llm_env where
  "sloppy_llm =
     \<lparr>complete = (\<lambda>t. Llm_json (JObj [(''intent'', JStr ''set_alarm''),
                                       (''slots'', JStr ''7 am''),
                                       (''confidence'', JNum (9 / 10))])),
      to_float = (\<lambda>v. case v of JNum x \<Rightarrow> Some x | _ \<Rightarrow> None)\<rparr>"

definition speaking_pipeline :: pipeline where
  "speaking_pipeline = sample_pipeline\<lparr>speech_create := (\<lambda>t. Some ''QVVESU8='')\<rparr>"

section \<open>Properties of the scheduling engine\<close>

subsection \<open>Normalisation and what a call stores\<close>

lemma normalize_naive:
  "normalize_scheduled_time \<lparr>wall = w, tzinfo = None\<rparr> = Inr \<lparr>wall = w, tzinfo = Some 0\<rparr>"
  by (simp add: normalize_scheduled_time_def)

lemma normalize_utc:
  "normalize_scheduled_time \<lparr>wall = w, tzinfo = Some 0\<rparr> = Inr \<lparr>wall = w, tzinfo = Some 0\<rparr>"
  by (simp add: normalize_scheduled_time_def astimezone_utc_def)

lemma normalize_aware:
  "normalize_scheduled_time \<lparr>wall = w, tzinfo = Some off\<rparr> = Inr st
     \<Longrightarrow> st = \<lparr>wall = w - off, tzinfo = Some 0\<rparr>"
  by (auto simp: normalize_scheduled_time_def astimezone_utc_def split: if_splits)

lemma scheduler_store_reminder [simp]:
  "scheduler (store_reminder u r d s) = scheduler s"
  by (simp add: store_reminder_def)

lemma firebase_app_store_reminder [simp]:
  "firebase_app (store_reminder u r d s) = firebase_app s"
  by (simp add: store_reminder_def)

lemma lookup_store:
  "lookup_reminder (store_reminder u1 r1 d s) u r
     = (if u = u1 \<and> r = r1 then Some d else lookup_reminder s u r)"
  by (auto simp: lookup_reminder_def store_reminder_def split: option.splits)

lemma lookup_scheduler_update [simp]:
  "lookup_reminder (s\<lparr>scheduler := x\<rparr>) u r = lookup_reminder s u r"
  by (simp add: lookup_reminder_def)

lemma pending_store_reminder [simp]:
  "pending (store_reminder u r d s) rid = pending s rid"
  by (simp add: pending_def)

text \<open>What \<open>schedule_reminder\<close> does, by cases.\<close>

lemma schedule_reminder_refused:
  "\<not> accepted clk t s \<Longrightarrow> snd (schedule_reminder clk uid tok txt t rid md s) = s"
  by (auto simp: accepted_def schedule_reminder_def split: sum.splits)

lemma schedule_reminder_accepted:
  assumes "accepted clk t s" and "normalize_scheduled_time t = Inr st"
  shows "schedule_reminder clk uid tok txt t rid md s
     = (case scheduler s of
          None \<Rightarrow>
            (Inl AttributeError,
             store_reminder uid (effective_id clk uid rid)
               (reminder_data clk uid tok txt (wall st) rid md) s)
        | Some sc \<Rightarrow>
            (Inr \<lparr>res_reminder_id = effective_id clk uid rid, scheduled_for = wall st,
                  notification_job = notification_job_id (effective_id clk uid rid)\<rparr>,
             (store_reminder uid (effective_id clk uid rid)
                (reminder_data clk uid tok txt (wall st) rid md) s)
             \<lparr>scheduler := Some (add_job (reminder_job clk uid tok txt (wall st) rid md) sc)\<rparr>))"
  using assms
  by (simp add: accepted_def schedule_reminder_def Let_def reminder_data_def reminder_job_def
      split: option.splits)


lemma stored_after_schedule:
  assumes "accepted clk t s" and "normalize_scheduled_time t = Inr st"
  shows "lookup_reminder (snd (schedule_reminder clk uid tok txt t rid md s)) uid
           (effective_id clk uid rid)
         = Some (reminder_data clk uid tok txt (wall st) rid md)"
  using schedule_reminder_accepted [OF assms, of uid tok "txt" rid md]
  by (cases "scheduler s") (simp_all add: lookup_store)

lemma job_after_schedule:
  assumes "accepted clk t s" and "normalize_scheduled_time t = Inr st"
    and "scheduler s = Some sc"
  shows "reminder_job clk uid tok txt (wall st) rid md
           \<in> set (pending (snd (schedule_reminder clk uid tok txt t rid md s))
                     (effective_id clk uid rid))"
proof -
  have "reminder_job clk uid tok txt (wall st) rid md
          \<in> set (jobs_of (add_job (reminder_job clk uid tok txt (wall st) rid md) sc))"
    by (cases sc) (auto simp: image_iff)
  then show ?thesis
    using schedule_reminder_accepted [OF assms(1,2), of uid tok "txt" rid md] assms(3)
    by (simp add: pending_def reminder_job_def)
qed

text \<open>
  C3. A time without timezone information is treated as UTC: the call with the naive
  time is the call with the same reading marked UTC, in what it returns and in the
  service it leaves. A time with an offset is converted to UTC, which is its reading
  less the offset. When the call gets past its checks, the record stored under the id
  of the reminder has the normalised reading as its \<open>scheduled_time\<close>; with a scheduler
  the call returns that reading as \<open>scheduled_for\<close> and a job with that run date is
  pending under the id.
\<close>

theorem schedule_reminder_naive_is_utc:
  "schedule_reminder clk uid tok txt \<lparr>wall = w, tzinfo = None\<rparr> rid md s
     = schedule_reminder clk uid tok txt \<lparr>wall = w, tzinfo = Some 0\<rparr> rid md s
   \<and> normalize_scheduled_time \<lparr>wall = w, tzinfo = None\<rparr> = Inr \<lparr>wall = w, tzinfo = Some 0\<rparr>
   \<and> (\<forall>off st. normalize_scheduled_time \<lparr>wall = w, tzinfo = Some off\<rparr> = Inr st
         \<longrightarrow> st = \<lparr>wall = w - off, tzinfo = Some 0\<rparr>)
   \<and> (firebase_app s \<and> utc_now clk < w
        \<longrightarrow> lookup_reminder
              (snd (schedule_reminder clk uid tok txt \<lparr>wall = w, tzinfo = None\<rparr> rid md s))
              uid (effective_id clk uid rid)
            = Some (reminder_data clk uid tok txt w rid md)
          \<and> scheduled_time (reminder_data clk uid tok txt w rid md) = w)
   \<and> (firebase_app s \<and> utc_now clk < w \<and> scheduler s = Some sc
        \<longrightarrow> fst (schedule_reminder clk uid tok txt \<lparr>wall = w, tzinfo = None\<rparr> rid md s)
            = Inr \<lparr>res_reminder_id = effective_id clk uid rid, scheduled_for = w,
                   notification_job = notification_job_id (effective_id clk uid rid)\<rparr>
          \<and> reminder_job clk uid tok txt w rid md
              \<in> set (pending
                  (snd (schedule_reminder clk uid tok txt \<lparr>wall = w, tzinfo = None\<rparr> rid md s))
                  (effective_id clk uid rid))
          \<and> run_date (reminder_job clk uid tok txt w rid md) = w)
   \<and> (firebase_app s \<and> normalize_scheduled_time \<lparr>wall = w, tzinfo = Some off\<rparr> = Inr st
        \<and> utc_now clk < w - off
        \<longrightarrow> lookup_reminder
              (snd (schedule_reminder clk uid tok txt \<lparr>wall = w, tzinfo = Some off\<rparr> rid md s))
              uid (effective_id clk uid rid)
            = Some (reminder_data clk uid tok txt (w - off) rid md)
          \<and> scheduled_time (reminder_data clk uid tok txt (w - off) rid md) = w - off)"
proof -
  let ?naive = "\<lparr>wall = w, tzinfo = None\<rparr>"
  let ?utc = "\<lparr>wall = w, tzinfo = Some 0\<rparr>"
  have a: "schedule_reminder clk uid tok txt ?naive rid md s
             = schedule_reminder clk uid tok txt ?utc rid md s"
    by (simp add: schedule_reminder_def normalize_naive normalize_utc)
  have b: "\<forall>off st. normalize_scheduled_time \<lparr>wall = w, tzinfo = Some off\<rparr> = Inr st
         \<longrightarrow> st = \<lparr>wall = w - off, tzinfo = Some 0\<rparr>"
    using normalize_aware by blast
  have acc: "accepted clk ?naive s" if "firebase_app s" "utc_now clk < w"
    using that by (simp add: accepted_def normalize_naive)
  have c: "firebase_app s \<and> utc_now clk < w
        \<longrightarrow> lookup_reminder (snd (schedule_reminder clk uid tok txt ?naive rid md s))
              uid (effective_id clk uid rid)
            = Some (reminder_data clk uid tok txt w rid md)
          \<and> scheduled_time (reminder_data clk uid tok txt w rid md) = w"
    using stored_after_schedule [OF acc normalize_naive, of uid tok "txt" rid md]
    by (simp add: reminder_data_def)
  have d: "firebase_app s \<and> utc_now clk < w \<and> scheduler s = Some sc
        \<longrightarrow> fst (schedule_reminder clk uid tok txt ?naive rid md s)
            = Inr \<lparr>res_reminder_id = effective_id clk uid rid, scheduled_for = w,
                   notification_job = notification_job_id (effective_id clk uid rid)\<rparr>
          \<and> reminder_job clk uid tok txt w rid md
              \<in> set (pending (snd (schedule_reminder clk uid tok txt ?naive rid md s))
                  (effective_id clk uid rid))
          \<and> run_date (reminder_job clk uid tok txt w rid md) = w"
  proof (intro impI, elim conjE)
    assume f: "firebase_app s" and w: "utc_now clk < w" and sc: "scheduler s = Some sc"
    from schedule_reminder_accepted [OF acc [OF f w] normalize_naive, of uid tok "txt" rid md] sc
    have "fst (schedule_reminder clk uid tok txt ?naive rid md s)
            = Inr \<lparr>res_reminder_id = effective_id clk uid rid, scheduled_for = w,
                   notification_job = notification_job_id (effective_id clk uid rid)\<rparr>"
      by simp
    moreover from job_after_schedule [OF acc [OF f w] normalize_naive sc, of uid tok "txt" rid md]
    have "reminder_job clk uid tok txt w rid md
              \<in> set (pending (snd (schedule_reminder clk uid tok txt ?naive rid md s))
                  (effective_id clk uid rid))"
      by simp
    moreover have "run_date (reminder_job clk uid tok txt w rid md) = w"
      by (simp add: reminder_job_def)
    ultimately show "fst (schedule_reminder clk uid tok txt ?naive rid md s)
            = Inr \<lparr>res_reminder_id = effective_id clk uid rid, scheduled_for = w,
                   notification_job = notification_job_id (effective_id clk uid rid)\<rparr>
          \<and> reminder_job clk uid tok txt w rid md
              \<in> set (pending (snd (schedule_reminder clk uid tok txt ?naive rid md s))
                  (effective_id clk uid rid))
          \<and> run_date (reminder_job clk uid tok txt w rid md) = w"
      by blast
  qed
  have e: "firebase_app s \<and> normalize_scheduled_time \<lparr>wall = w, tzinfo = Some off\<rparr> = Inr st
        \<and> utc_now clk < w - off
        \<longrightarrow> lookup_reminder
              (snd (schedule_reminder clk uid tok txt \<lparr>wall = w, tzinfo = Some off\<rparr> rid md s))
              uid (effective_id clk uid rid)
            = Some (reminder_data clk uid tok txt (w - off) rid md)
          \<and> scheduled_time (reminder_data clk uid tok txt (w - off) rid md) = w - off"
  proof (intro impI, elim conjE)
    assume f: "firebase_app s"
      and n: "normalize_scheduled_time \<lparr>wall = w, tzinfo = Some off\<rparr> = Inr st"
      and w: "utc_now clk < w - off"
    from normalize_aware [OF n] have st: "wall st = w - off" by simp
    with f n w have "accepted clk \<lparr>wall = w, tzinfo = Some off\<rparr> s"
      by (simp add: accepted_def)
    from stored_after_schedule [OF this n, of uid tok "txt" rid md] st
    show "lookup_reminder
              (snd (schedule_reminder clk uid tok txt \<lparr>wall = w, tzinfo = Some off\<rparr> rid md s))
              uid (effective_id clk uid rid)
            = Some (reminder_data clk uid tok txt (w - off) rid md)
          \<and> scheduled_time (reminder_data clk uid tok txt (w - off) rid md) = w - off"
      by (simp add: reminder_data_def)
  qed
  from a normalize_naive b c d e show ?thesis by blast
qed

theorem schedule_reminder_naive_is_utc_witness:
  "firebase_app (new_service True Started)
   \<and> utc_now noon < 63929412000000000
   \<and> scheduler (new_service True Started) = Some (Running [])
   \<and> normalize_scheduled_time \<lparr>wall = 63929431800000000, tzinfo = Some 19800000000\<rparr>
       = Inr \<lparr>wall = 63929412000000000, tzinfo = Some 0\<rparr>
   \<and> utc_now noon < 63929431800000000 - 19800000000
   \<and> map_option scheduled_time
        (lookup_reminder
           (snd (schedule_reminder noon ''u1'' ''token-0123456789'' ''tea''
                   \<lparr>wall = 63929412000000000, tzinfo = None\<rparr> (Some ''r1'') None
                   (new_service True Started))) ''u1'' ''r1'')
       = Some 63929412000000000
   \<and> map_option scheduled_time
        (lookup_reminder
           (snd (schedule_reminder noon ''u1'' ''token-0123456789'' ''tea''
                   \<lparr>wall = 63929431800000000, tzinfo = Some 19800000000\<rparr> (Some ''r1'') None
                   (new_service True Started))) ''u1'' ''r1'')
       = Some 63929412000000000
   \<and> fst (schedule_reminder noon ''u1'' ''token-0123456789'' ''tea''
             \<lparr>wall = 63929412000000000, tzinfo = None\<rparr> (Some ''r1'') None
             (new_service True Started))
       = Inr \<lparr>res_reminder_id = ''r1'', scheduled_for = 63929412000000000,
              notification_job = ''firebase_reminder_r1''\<rparr>
   \<and> schedule_reminder noon ''u1'' ''token-0123456789'' ''tea''
        \<lparr>wall = 63929412000000000, tzinfo = None\<rparr> (Some ''r1'') None (new_service True Started)
     = schedule_reminder noon ''u1'' ''token-0123456789'' ''tea''
        \<lparr>wall = 63929412000000000, tzinfo = Some 0\<rparr> (Some ''r1'') None
        (new_service True Started)"
proof -
  have f: "firebase_app (new_service True Started)" by (simp add: new_service_def)
  have w: "utc_now noon < 63929412000000000" by (simp add: noon_def)
  have sc: "scheduler (new_service True Started) = Some (Running [])"
    by (simp add: new_service_def)
  have n: "normalize_scheduled_time \<lparr>wall = 63929431800000000, tzinfo = Some 19800000000\<rparr>
             = Inr \<lparr>wall = 63929412000000000, tzinfo = Some 0\<rparr>"
    by (simp add: normalize_scheduled_time_def astimezone_utc_def DT_MIN_def DT_MAX_def)
  have w': "utc_now noon < 63929431800000000 - 19800000000" by (simp add: noon_def)
  have e: "effective_id noon ''u1'' (Some ''r1'') = ''r1''" by (simp add: effective_id_def)
  note naive = schedule_reminder_naive_is_utc [of noon "''u1''" "''token-0123456789''" "''tea''"
      63929412000000000 "Some ''r1''" None "new_service True Started" "Running []"]
  note aware = schedule_reminder_naive_is_utc [of noon "''u1''" "''token-0123456789''" "''tea''"
      63929431800000000 "Some ''r1''" None "new_service True Started" _ 19800000000
      "\<lparr>wall = 63929412000000000, tzinfo = Some 0\<rparr>"]
  from naive f w have a: "lookup_reminder
           (snd (schedule_reminder noon ''u1'' ''token-0123456789'' ''tea''
                   \<lparr>wall = 63929412000000000, tzinfo = None\<rparr> (Some ''r1'') None
                   (new_service True Started))) ''u1'' (effective_id noon ''u1'' (Some ''r1''))
       = Some (reminder_data noon ''u1'' ''token-0123456789'' ''tea'' 63929412000000000
                 (Some ''r1'') None)"
    by blast
  from naive f w sc have b: "fst (schedule_reminder noon ''u1'' ''token-0123456789'' ''tea''
             \<lparr>wall = 63929412000000000, tzinfo = None\<rparr> (Some ''r1'') None
             (new_service True Started))
       = Inr \<lparr>res_reminder_id = effective_id noon ''u1'' (Some ''r1''),
              scheduled_for = 63929412000000000,
              notification_job = notification_job_id (effective_id noon ''u1'' (Some ''r1''))\<rparr>"
    by blast
  from naive have c: "schedule_reminder noon ''u1'' ''token-0123456789'' ''tea''
        \<lparr>wall = 63929412000000000, tzinfo = None\<rparr> (Some ''r1'') None (new_service True Started)
     = schedule_reminder noon ''u1'' ''token-0123456789'' ''tea''
        \<lparr>wall = 63929412000000000, tzinfo = Some 0\<rparr> (Some ''r1'') None
        (new_service True Started)"
    by blast
  from aware f n w' have d: "lookup_reminder
           (snd (schedule_reminder noon ''u1'' ''token-0123456789'' ''tea''
                   \<lparr>wall = 63929431800000000, tzinfo = Some 19800000000\<rparr> (Some ''r1'') None
                   (new_service True Started))) ''u1'' (effective_id noon ''u1'' (Some ''r1''))
       = Some (reminder_data noon ''u1'' ''token-0123456789'' ''tea''
                 (63929431800000000 - 19800000000) (Some ''r1'') None)"
    by blast
  from a have a': "map_option scheduled_time
        (lookup_reminder
           (snd (schedule_reminder noon ''u1'' ''token-0123456789'' ''tea''
                   \<lparr>wall = 63929412000000000, tzinfo = None\<rparr> (Some ''r1'') None
                   (new_service True Started))) ''u1'' ''r1'')
       = Some 63929412000000000"
    by (simp add: e reminder_data_def)
  from d have d': "map_option scheduled_time
        (lookup_reminder
           (snd (schedule_reminder noon ''u1'' ''token-0123456789'' ''tea''
                   \<lparr>wall = 63929431800000000, tzinfo = Some 19800000000\<rparr> (Some ''r1'') None
                   (new_service True Started))) ''u1'' ''r1'')
       = Some 63929412000000000"
    by (simp add: e reminder_data_def)
  from b have b': "fst (schedule_reminder noon ''u1'' ''token-0123456789'' ''tea''
             \<lparr>wall = 63929412000000000, tzinfo = None\<rparr> (Some ''r1'') None
             (new_service True Started))
       = Inr \<lparr>res_reminder_id = ''r1'', scheduled_for = 63929412000000000,
              notification_job = ''firebase_reminder_r1''\<rparr>"
    by (simp add: e notification_job_id_def)
  from f w sc n w' a' d' b' c show ?thesis by blast
qed

text \<open>
  C2. When the normalised trigger time is not after the current UTC time, the call raises
  a \<open>ValueError\<close> and leaves the service as it was: no record is stored and no job is
  installed. With Firebase initialised the error is the one about the time.
\<close>

theorem schedule_reminder_rejects_past:
  assumes "normalize_scheduled_time t = Inr st" and "wall st \<le> utc_now clk"
  shows "schedule_reminder clk uid tok txt t rid md s
           = (Inl (ValueError (if firebase_app s then Must_be_in_future (wall st) (utc_now clk)
                               else Firebase_not_initialized)), s)"
  using assms by (simp add: schedule_reminder_def)

theorem schedule_reminder_rejects_past_witness:
  "normalize_scheduled_time nine_am = Inr (nine_am\<lparr>tzinfo := Some 0\<rparr>)
   \<and> wall (nine_am\<lparr>tzinfo := Some 0\<rparr>) \<le> utc_now noon
   \<and> schedule_reminder noon ''u1'' ''token-0123456789'' ''tea'' nine_am (Some ''r1'') None
        (new_service True Started)
     = (Inl (ValueError (Must_be_in_future 63929379600000000 63929390400000000)),
        new_service True Started)"
proof -
  have n: "normalize_scheduled_time nine_am = Inr (nine_am\<lparr>tzinfo := Some 0\<rparr>)"
    by (simp add: normalize_scheduled_time_def nine_am_def)
  have w: "wall (nine_am\<lparr>tzinfo := Some 0\<rparr>) \<le> utc_now noon"
    by (simp add: nine_am_def noon_def)
  have f: "firebase_app (new_service True Started)"
    by (simp add: new_service_def)
  from schedule_reminder_rejects_past [OF n w, of "''u1''" "''token-0123456789''" "''tea''"
      "Some ''r1''" None "new_service True Started"] f
  have "schedule_reminder noon ''u1'' ''token-0123456789'' ''tea'' nine_am (Some ''r1'') None
        (new_service True Started)
     = (Inl (ValueError (Must_be_in_future 63929379600000000 63929390400000000)),
        new_service True Started)"
    by (simp add: nine_am_def noon_def)
  with n w show ?thesis by blast
qed

subsection \<open>The job store\<close>




lemma filter_remove_first_other:
  "jid' \<noteq> jid \<Longrightarrow>
     filter (\<lambda>k. job_id k = jid') (remove_first jid js) = filter (\<lambda>k. job_id k = jid') js"
  by (induction js) auto








lemma stopped_add_job: "add_job j (Stopped js) = Stopped (js @ [j])"
  by simp



subsection \<open>Invariants of the transition system\<close>

lemma scheduler_send [simp]:
  "scheduler (send_scheduled_notification clk d outcome s) = scheduler s"
  by (simp add: send_scheduled_notification_def split: option.splits sum.splits)


lemma svc_step_timer: "svc (step (Timer jid) sys) = snd (take_job jid (svc sys))"
  by (cases "take_job jid (svc sys)"; cases "fst (take_job jid (svc sys))")
     (auto simp: take_job_def split: option.splits sched.splits)



















subsection \<open>Scheduling under an id with a pending job\<close>




lemma run_snoc: "run (evs @ [e]) sys = step e (run evs sys)"
  by (simp add: run_def)

lemma run_single: "run [e] sys = step e sys"
  by (simp add: run_def)

lemma booked_state:
  "booked = \<lparr>firebase_app = True,
      scheduler = Some (Running [\<lparr>job_id = ''firebase_reminder_r1'', run_date = 63929412000000000,
         args = \<lparr>reminder_id = ''r1'', user_id = ''u1'', fcm_token = ''token-0123456789'',
                 reminder_text = ''tea'', scheduled_time = 63929412000000000, metadata = [],
                 created_at = 63929390400000000, status = Scheduled, sent_at = None,
                 firebase_response = None, error_text = None, cancelled_at = None\<rparr>\<rparr>]),
      reminders = [''u1'' \<mapsto> [''r1'' \<mapsto>
               \<lparr>reminder_id = ''r1'', user_id = ''u1'', fcm_token = ''token-0123456789'',
                 reminder_text = ''tea'', scheduled_time = 63929412000000000, metadata = [],
                 created_at = 63929390400000000, status = Scheduled, sent_at = None,
                 firebase_response = None, error_text = None, cancelled_at = None\<rparr>]]\<rparr>"
  by (simp add: booked_def run_def boot_def schedule_reminder_def normalize_scheduled_time_def
      six_pm_def noon_def new_service_def Let_def effective_id_def store_reminder_def
      notification_job_id_def)







subsection \<open>Example states\<close>

lemma delivered_reachable:
  "delivered =
     svc (run [Schedule noon ''u1'' ''token-0123456789'' ''tea'' six_pm (Some ''r1'') None,
               Timer ''firebase_reminder_r1'',
               Send_done at_six_pm 0 (Inr ''message-1'')]
            (boot (new_service True Started)))"
  by (simp add: delivered_def)

lemma called_off_reachable:
  "called_off =
     svc (run [Schedule noon ''u1'' ''token-0123456789'' ''tea'' six_pm (Some ''r1'') None,
               Cancel one_pm ''u1'' ''r1'']
            (boot (new_service True Started)))"
  by (simp add: called_off_def booked_def run_def)

lemma fired_state:
  "run [Schedule noon ''u1'' ''token-0123456789'' ''tea'' six_pm (Some ''r1'') None,
        Timer ''firebase_reminder_r1''] (boot (new_service True Started))
   = \<lparr>svc = booked\<lparr>scheduler := Some (Running [])\<rparr>,
      in_flight = [\<lparr>reminder_id = ''r1'', user_id = ''u1'', fcm_token = ''token-0123456789'',
                 reminder_text = ''tea'', scheduled_time = 63929412000000000, metadata = [],
                 created_at = 63929390400000000, status = Scheduled, sent_at = None,
                 firebase_response = None, error_text = None, cancelled_at = None\<rparr>]\<rparr>"
proof -
  have "run [Schedule noon ''u1'' ''token-0123456789'' ''tea'' six_pm (Some ''r1'') None,
        Timer ''firebase_reminder_r1''] (boot (new_service True Started))
     = step (Timer ''firebase_reminder_r1'') \<lparr>svc = booked, in_flight = []\<rparr>"
    by (simp add: run_def booked_def boot_def)
  then show ?thesis
    unfolding booked_state by (simp add: take_job_def)
qed

lemma delivered_state:
  "delivered = \<lparr>firebase_app = True, scheduler = Some (Running []),
      reminders = [''u1'' \<mapsto> [''r1'' \<mapsto>
               \<lparr>reminder_id = ''r1'', user_id = ''u1'', fcm_token = ''token-0123456789'',
                 reminder_text = ''tea'', scheduled_time = 63929412000000000, metadata = [],
                 created_at = 63929390400000000, status = Sent,
                 sent_at = Some 63929412000000000,
                 firebase_response = Some ''message-1'', error_text = None,
                 cancelled_at = None\<rparr>]]\<rparr>"
proof -
  have "delivered = svc (step (Send_done at_six_pm 0 (Inr ''message-1''))
          (run [Schedule noon ''u1'' ''token-0123456789'' ''tea'' six_pm (Some ''r1'') None,
                Timer ''firebase_reminder_r1''] (boot (new_service True Started))))"
    by (simp add: delivered_def run_def)
  then show ?thesis
    unfolding fired_state booked_state
    by (simp add: send_scheduled_notification_def lookup_reminder_def store_reminder_def
        at_six_pm_def)
qed


lemma raced_state:
  "raced = \<lparr>svc = \<lparr>firebase_app = True, scheduler = Some (Running []),
      reminders = [''u1'' \<mapsto> [''r1'' \<mapsto>
               \<lparr>reminder_id = ''r1'', user_id = ''u1'', fcm_token = ''token-0123456789'',
                 reminder_text = ''tea'', scheduled_time = 63929412000000000, metadata = [],
                 created_at = 63929390400000000, status = Cancelled, sent_at = None,
                 firebase_response = None, error_text = None,
                 cancelled_at = Some 63929412000000000\<rparr>]]\<rparr>,
      in_flight = [\<lparr>reminder_id = ''r1'', user_id = ''u1'', fcm_token = ''token-0123456789'',
                 reminder_text = ''tea'', scheduled_time = 63929412000000000, metadata = [],
                 created_at = 63929390400000000, status = Scheduled, sent_at = None,
                 firebase_response = None, error_text = None, cancelled_at = None\<rparr>]\<rparr>"
proof -
  have "raced = step (Cancel at_six_pm ''u1'' ''r1'')
          (run [Schedule noon ''u1'' ''token-0123456789'' ''tea'' six_pm (Some ''r1'') None,
                Timer ''firebase_reminder_r1''] (boot (new_service True Started)))"
    by (simp add: raced_def run_def)
  then show ?thesis
    unfolding fired_state booked_state
    by (simp add: cancel_reminder_def Let_def lookup_reminder_def store_reminder_def
        notification_job_id_def at_six_pm_def)
qed


subsection \<open>Cancelling\<close>

lemma notification_job_id_inj:
  "notification_job_id a = notification_job_id b \<longleftrightarrow> a = b"
  by (simp add: notification_job_id_def)


lemma lookup_cancel:
  "lookup_reminder (snd (cancel_reminder clk u1 r1 s)) u r
     = (if u = u1 \<and> r = r1
        then map_option (\<lambda>d. d\<lparr>status := Cancelled, cancelled_at := Some (local_now clk)\<rparr>)
               (lookup_reminder s u r)
        else lookup_reminder s u r)"
  by (cases "scheduler s"; cases "lookup_reminder s u1 r1")
     (auto simp: cancel_reminder_def Let_def lookup_store)











subsection \<open>The status of a record\<close>

lemma status_of_store:
  "status_of (store_reminder u1 r1 d s) u r
     = (if u = u1 \<and> r = r1 then Some (status d) else status_of s u r)"
  by (simp add: status_of_def lookup_store)

lemma status_of_scheduler_update [simp]:
  "status_of (s\<lparr>scheduler := x\<rparr>) u r = status_of s u r"
  by (simp add: status_of_def)

lemma status_of_cancel:
  "status_of (snd (cancel_reminder clk u1 r1 s)) u r
     = (if u = u1 \<and> r = r1 \<and> status_of s u r \<noteq> None then Some Cancelled
        else status_of s u r)"
  by (cases "lookup_reminder s u r") (auto simp: status_of_def lookup_cancel)

lemma status_of_send:
  "status_of (send_scheduled_notification clk d outcome s) u r
     = (if firebase_app s \<and> u = user_id d \<and> r = reminder_id d \<and> status_of s u r \<noteq> None
        then Some (case outcome of Inl e \<Rightarrow> Failed | Inr response \<Rightarrow> Sent)
        else status_of s u r)"
  by (cases "lookup_reminder s (user_id d) (reminder_id d)"; cases outcome)
     (auto simp: send_scheduled_notification_def status_of_store, auto simp: status_of_def)

lemma status_of_schedule:
  "status_of (snd (schedule_reminder clk u1 tok txt t rid md s)) u r
     = (if accepted clk t s \<and> u = u1 \<and> r = effective_id clk u1 rid then Some Scheduled
        else status_of s u r)"
proof (cases "accepted clk t s")
  case False
  then show ?thesis by (simp add: schedule_reminder_refused)
next
  case True
  then obtain st where st: "normalize_scheduled_time t = Inr st"
    by (auto simp: accepted_def split: sum.splits)
  from schedule_reminder_accepted [OF True st, of u1 tok "txt" rid md] True
  show ?thesis
    by (cases "scheduler s") (auto simp: status_of_store reminder_data_def)
qed

lemma status_of_take:
  "status_of (snd (take_job jid s)) u r = status_of s u r"
  by (auto simp: take_job_def split: option.splits sched.splits)

lemma status_of_timer:
  "status_of (svc (step (Timer jid) sys)) u r = status_of (svc sys) u r"
  unfolding svc_step_timer by (rule status_of_take)

lemma status_of_misfire:
  "status_of (svc (step (Misfire jid) sys)) u r = status_of (svc sys) u r"
  by (simp add: status_of_take)

text \<open>
  C1, as the code has it: the status of every record after each operation, whatever the
  status was before. \<open>cancel_reminder\<close> writes \<open>Cancelled\<close> on the record it names, when
  there is one, and leaves every other record alone. The delivery callback, when its
  send returns or raises, writes \<open>Sent\<close> or \<open>Failed\<close> on the record of its reminder,
  when there is one and Firebase is initialised. \<open>schedule_reminder\<close>, when it gets past
  its checks, writes \<open>Scheduled\<close> on the record of its id. A job leaving the store, with
  its callback started or as a misfire, changes no status. So a terminal status stays a
  terminal status under a cancel and under the end of a callback, though not the same
  one, and is left for \<open>Scheduled\<close> only by a new \<open>schedule_reminder\<close> with the same id.
\<close>

theorem status_after_each_call:
  "status_of (snd (cancel_reminder clk u1 r1 s)) u r
     = (if u = u1 \<and> r = r1 \<and> status_of s u r \<noteq> None then Some Cancelled
        else status_of s u r)
   \<and> status_of (send_scheduled_notification clk2 d outcome s) u r
     = (if firebase_app s \<and> u = user_id d \<and> r = reminder_id d \<and> status_of s u r \<noteq> None
        then Some (case outcome of Inl e \<Rightarrow> Failed | Inr response \<Rightarrow> Sent)
        else status_of s u r)
   \<and> status_of (snd (schedule_reminder clk3 u3 tok msg t rid md s)) u r
     = (if accepted clk3 t s \<and> u = u3 \<and> r = effective_id clk3 u3 rid then Some Scheduled
        else status_of s u r)
   \<and> status_of (svc (step (Timer jid) sys)) u r = status_of (svc sys) u r
   \<and> status_of (svc (step (Misfire jid) sys)) u r = status_of (svc sys) u r
   \<and> (status_of s u r = Some st \<and> terminal st
        \<longrightarrow> (\<exists>st'. status_of (snd (cancel_reminder clk u1 r1 s)) u r = Some st' \<and> terminal st')
          \<and> (\<exists>st'. status_of (send_scheduled_notification clk2 d outcome s) u r = Some st'
                  \<and> terminal st'))"
proof -
  have e: "status_of s u r = Some st \<and> terminal st
        \<longrightarrow> (\<exists>st'. status_of (snd (cancel_reminder clk u1 r1 s)) u r = Some st' \<and> terminal st')
          \<and> (\<exists>st'. status_of (send_scheduled_notification clk2 d outcome s) u r = Some st'
                  \<and> terminal st')"
    by (cases outcome) (auto simp: status_of_cancel status_of_send terminal_def)
  from status_of_cancel [of clk u1 r1 s u r] status_of_send [of clk2 d outcome s u r]
    status_of_schedule [of clk3 u3 tok msg t rid md s u r] status_of_timer [of jid sys u r]
    status_of_misfire [of jid sys u r] e
  show ?thesis by (intro conjI)
qed

theorem status_after_each_call_witness:
  "status_of delivered ''u1'' ''r1'' = Some Sent \<and> terminal Sent
   \<and> status_of (snd (cancel_reminder at_eight_pm ''u1'' ''r1'' delivered)) ''u1'' ''r1''
       = Some Cancelled
   \<and> status_of (snd (cancel_reminder at_eight_pm ''u1'' ''r2'' delivered)) ''u1'' ''r1''
       = Some Sent
   \<and> status_of (send_scheduled_notification at_eight_pm
         (reminder_data noon ''u1'' ''token-0123456789'' ''tea'' 63929412000000000 (Some ''r1'') None)
         (Inl ''timed out'') delivered) ''u1'' ''r1'' = Some Failed
   \<and> status_of (snd (schedule_reminder one_pm ''u1'' ''token-0123456789'' ''tea'' eight_pm
         (Some ''r1'') None delivered)) ''u1'' ''r1'' = Some Scheduled
   \<and> status_of (svc (step (Misfire ''firebase_reminder_r1'') (boot delivered))) ''u1'' ''r1''
       = Some Sent"
proof -
  let ?d = "reminder_data noon ''u1'' ''token-0123456789'' ''tea'' 63929412000000000
              (Some ''r1'') None"
  have s: "status_of delivered ''u1'' ''r1'' = Some Sent \<and> terminal Sent"
    by (simp add: delivered_state status_of_def lookup_reminder_def terminal_def)
  have f: "firebase_app delivered" by (simp add: delivered_state)
  have i: "user_id ?d = ''u1'' \<and> reminder_id ?d = ''r1''"
    by (simp add: reminder_data_def effective_id_def)
  have a: "accepted one_pm eight_pm delivered"
    by (simp add: accepted_def f normalize_scheduled_time_def eight_pm_def one_pm_def)
  have e: "effective_id one_pm ''u1'' (Some ''r1'') = ''r1''"
    by (simp add: effective_id_def)
  note t1 = status_after_each_call [where clk = at_eight_pm and ?u1.0 = "''u1''"
      and ?r1.0 = "''r1''" and s = delivered and u = "''u1''" and r = "''r1''"
      and ?clk2.0 = at_eight_pm and d = ?d and outcome = "Inl ''timed out''" and ?clk3.0 = one_pm
      and ?u3.0 = "''u1''" and tok = "''token-0123456789''" and msg = "''tea''"
      and t = eight_pm and rid = "Some ''r1''" and md = None
      and jid = "''firebase_reminder_r1''" and sys = "boot delivered" and st = Sent]
  note t2 = status_after_each_call [where clk = at_eight_pm and ?u1.0 = "''u1''"
      and ?r1.0 = "''r2''" and s = delivered and u = "''u1''" and r = "''r1''"
      and ?clk2.0 = at_eight_pm and d = ?d and outcome = "Inl ''timed out''" and ?clk3.0 = one_pm
      and ?u3.0 = "''u1''" and tok = "''token-0123456789''" and msg = "''tea''"
      and t = eight_pm and rid = "Some ''r1''" and md = None
      and jid = "''firebase_reminder_r1''" and sys = "boot delivered" and st = Sent]
  from t1 s f i a e have
    "status_of (snd (cancel_reminder at_eight_pm ''u1'' ''r1'' delivered)) ''u1'' ''r1''
       = Some Cancelled"
    "status_of (send_scheduled_notification at_eight_pm ?d (Inl ''timed out'') delivered)
       ''u1'' ''r1'' = Some Failed"
    "status_of (snd (schedule_reminder one_pm ''u1'' ''token-0123456789'' ''tea'' eight_pm
         (Some ''r1'') None delivered)) ''u1'' ''r1'' = Some Scheduled"
    "status_of (svc (step (Misfire ''firebase_reminder_r1'') (boot delivered))) ''u1'' ''r1''
       = Some Sent"
    by (simp_all add: boot_def)
  moreover from t2 s have
    "status_of (snd (cancel_reminder at_eight_pm ''u1'' ''r2'' delivered)) ''u1'' ''r1''
       = Some Sent"
    by simp
  ultimately show ?thesis using s by blast
qed

text \<open>
  C1 as it is written fails in three ways. A delivered reminder that is cancelled goes
  from \<open>Sent\<close> to \<open>Cancelled\<close>. A reminder cancelled while the send of its notification
  is under way goes from \<open>Cancelled\<close> to \<open>Sent\<close> when the send returns. A delivered
  reminder scheduled again under its id goes from \<open>Sent\<close> to \<open>Scheduled\<close>.
\<close>

theorem cancel_after_sent_counterexample:
  "status_of delivered ''u1'' ''r1'' = Some Sent
   \<and> status_of (snd (cancel_reminder at_eight_pm ''u1'' ''r1'' delivered)) ''u1'' ''r1''
       = Some Cancelled
   \<and> status_of (svc raced) ''u1'' ''r1'' = Some Cancelled
   \<and> status_of (svc (step (Send_done at_six_pm 0 (Inr ''message-1'')) raced)) ''u1'' ''r1''
       = Some Sent
   \<and> status_of (snd (schedule_reminder one_pm ''u1'' ''token-0123456789'' ''tea'' eight_pm
         (Some ''r1'') None delivered)) ''u1'' ''r1'' = Some Scheduled"
  unfolding delivered_state raced_state
  by (simp add: status_of_def cancel_reminder_def Let_def lookup_reminder_def store_reminder_def
      notification_job_id_def send_scheduled_notification_def schedule_reminder_def
      normalize_scheduled_time_def eight_pm_def one_pm_def effective_id_def)

section \<open>Properties of the intent parser\<close>

lemma first_pattern_None_iff:
  "first_pattern ps t = None \<longleftrightarrow> (\<forall>p \<in> set ps. re_search p t = None)"
  by (induction ps) (auto split: option.splits)

lemma no_match_Nil: "no_match [] t"
  by (simp add: no_match_def)

lemma no_match_Cons:
  "no_match ((k, ps) # rest) t \<longleftrightarrow> first_pattern ps t = None \<and> no_match rest t"
  by (auto simp: no_match_def first_pattern_None_iff)

lemma rule_loop_None_iff:
  "rule_loop pats t = None \<longleftrightarrow> no_match pats t"
proof (induction pats t rule: rule_loop.induct)
  case (1 t)
  show ?case by (simp add: no_match_Nil)
next
  case (2 k ps rest t)
  show ?case
  proof (cases "first_pattern ps t")
    case None
    with 2 show ?thesis by (simp add: no_match_Cons)
  next
    case (Some g)
    then show ?thesis by (simp add: no_match_Cons)
  qed
qed

lemma rule_loop_Some:
  "rule_loop pats t = Some i \<Longrightarrow>
     confidence i = 9 / 10 \<and> original_text i = t
     \<and> (\<exists>pre ps post. pats = pre @ (intent i, ps) # post
           \<and> (\<exists>p \<in> set ps. re_search p t \<noteq> None)
           \<and> no_match pre t)"
proof (induction pats t rule: rule_loop.induct)
  case (1 t)
  then show ?case by simp
next
  case (2 k ps rest t)
  show ?case
  proof (cases "first_pattern ps t")
    case None
    with 2(2) have rest: "rule_loop rest t = Some i" by simp
    from 2(1) [OF None rest] obtain pre ps' post
      where c: "confidence i = 9 / 10" "original_text i = t"
      and r: "rest = pre @ (intent i, ps') # post"
      and m: "\<exists>p \<in> set ps'. re_search p t \<noteq> None"
      and n: "no_match pre t"
      by blast
    from None n have n': "no_match ((k, ps) # pre) t"
      by (simp add: no_match_Cons)
    from r have r': "(k, ps) # rest = ((k, ps) # pre) @ (intent i, ps') # post"
      by simp
    from c r' m n' show ?thesis by blast
  next
    case (Some g)
    then have m: "\<exists>p \<in> set ps. re_search p t \<noteq> None"
      using first_pattern_None_iff [of ps t] by auto
    from Some 2(2) have k: "intent i = k" and c: "confidence i = 9 / 10" "original_text i = t"
      by auto
    from k have r: "(k, ps) # rest = [] @ (intent i, ps) # rest" by simp
    from c r m no_match_Nil [of t] show ?thesis by blast
  qed
qed

text \<open>
  C6. When a rule pattern matches the lower-cased, stripped text, \<open>parse\<close> returns the
  rule tier's intent without a call to the classifier: the confidence is 0.9 and the
  kind is the first one, in the order of the pattern dictionary, that has a matching
  pattern. For \<open>set an alarm for 6:30 am\<close> this is \<open>SET_ALARM\<close> with the slot
  \<open>time = 6:30 am\<close>.
\<close>

theorem rule_match_skips_llm:
  assumes "(k, ps) \<in> set intent_patterns" and "p \<in> set ps"
    and "re_search p (strip (lower t)) \<noteq> None"
  shows "\<exists>i. parse env t = (i, 0)
           \<and> confidence i = 9 / 10
           \<and> original_text i = strip (lower t)
           \<and> (\<exists>pre ps' post. intent_patterns = pre @ (intent i, ps') # post
                 \<and> (\<exists>p' \<in> set ps'. re_search p' (strip (lower t)) \<noteq> None)
                 \<and> no_match pre (strip (lower t)))"
proof -
  have "\<not> no_match intent_patterns (strip (lower t))"
  proof
    assume "no_match intent_patterns (strip (lower t))"
    with assms(1,2) have "re_search p (strip (lower t)) = None"
      unfolding no_match_def by (elim allE [where x = k] allE [where x = ps] allE [where x = p]) simp
    with assms(3) show False by simp
  qed
  then have "rule_loop intent_patterns (strip (lower t)) \<noteq> None"
    by (simp add: rule_loop_None_iff)
  then obtain i where i: "rule_based_parse (strip (lower t)) = Some i"
    by (auto simp: rule_based_parse_def)
  note r = rule_loop_Some [OF i [unfolded rule_based_parse_def]]
  from r have c: "confidence i = 9 / 10" by simp
  with i have "parse env t = (i, 0)"
    by (simp add: parse_def Let_def)
  with r show ?thesis by blast
qed

lemma alarm_search:
  "re_search (hd set_alarm_patterns) ''set an alarm for 6:30 am'' = Some (Some ''6:30 am'')"
  by code_simp

lemma alarm_text: "strip (lower ''set an alarm for 6:30 am'') = ''set an alarm for 6:30 am''"
  by code_simp

lemma alarm_text_upper: "strip (lower ''Set an alarm for 6:30 AM'') = ''set an alarm for 6:30 am''"
  by code_simp

lemma alarm_rule: "rule_based_parse ''set an alarm for 6:30 am''
   = Some \<lparr>intent = SET_ALARM, slots = [(''time'', JStr ''6:30 am'')], confidence = 9 / 10,
            original_text = ''set an alarm for 6:30 am''\<rparr>"
proof -
  have "first_pattern set_alarm_patterns ''set an alarm for 6:30 am'' = Some (Some ''6:30 am'')"
    by code_simp
  then show ?thesis
    by (simp add: rule_based_parse_def intent_patterns_def extract_slots_from_pattern_def)
qed

theorem rule_match_skips_llm_witness:
  "(SET_ALARM, set_alarm_patterns) \<in> set intent_patterns
   \<and> hd set_alarm_patterns \<in> set set_alarm_patterns
   \<and> re_search (hd set_alarm_patterns) (strip (lower ''set an alarm for 6:30 am'')) \<noteq> None
   \<and> parse offline_llm ''set an alarm for 6:30 am''
      = (\<lparr>intent = SET_ALARM, slots = [(''time'', JStr ''6:30 am'')], confidence = 9 / 10,
           original_text = ''set an alarm for 6:30 am''\<rparr>, 0)"
proof -
  have a: "(SET_ALARM, set_alarm_patterns) \<in> set intent_patterns"
    by (simp add: intent_patterns_def)
  have b: "hd set_alarm_patterns \<in> set set_alarm_patterns"
    by (simp add: set_alarm_patterns_def)
  have c: "re_search (hd set_alarm_patterns) (strip (lower ''set an alarm for 6:30 am'')) \<noteq> None"
    unfolding alarm_text alarm_search by simp
  from rule_match_skips_llm [OF a b c, of offline_llm]
  obtain i where i: "parse offline_llm ''set an alarm for 6:30 am'' = (i, 0)" by blast
  have "parse offline_llm ''set an alarm for 6:30 am''
      = (\<lparr>intent = SET_ALARM, slots = [(''time'', JStr ''6:30 am'')], confidence = 9 / 10,
           original_text = ''set an alarm for 6:30 am''\<rparr>, 0)"
    unfolding parse_def Let_def alarm_text alarm_rule by simp
  with a b c show ?thesis by blast
qed

lemma intent_type_of_unrecognised:
  assumes "v \<notin> JStr ` set (map intent_value all_intent_types)"
  shows "intent_type_of v = UNKNOWN"
proof (cases v)
  case (JStr l)
  with assms have "l \<notin> set (map intent_value all_intent_types)" by auto
  then have "find (\<lambda>k. intent_value k = l) all_intent_types = None"
    by (auto simp: find_None_iff)
  with JStr show ?thesis by (simp add: intent_type_of_def)
qed (simp_all add: intent_type_of_def)

lemma intent_type_of_value: "intent_type_of (JStr (intent_value k)) = k"
  by (cases k) (simp_all add: intent_type_of_def all_intent_types_def)

lemma llm_parse_caught:
  "llm_parse_body env t = Inl e \<Longrightarrow> llm_parse env t = unknown_intent t"
  by (simp add: llm_parse_def)

lemma llm_parse_body_no_object:
  "\<forall>result. complete env t \<noteq> Llm_json (JObj result) \<Longrightarrow> \<exists>e. llm_parse_body env t = Inl e"
  by (auto simp: llm_parse_body_def split: llm_reply.splits json.splits)

lemma llm_parse_body_not_dict:
  "complete env t = Llm_json v \<Longrightarrow> \<forall>result. v \<noteq> JObj result
     \<Longrightarrow> llm_parse_body env t = Inl Attribute_error"
  by (cases v) (simp_all add: llm_parse_body_def)

lemma llm_parse_body_bad_slots:
  "complete env t = Llm_json (JObj result) \<Longrightarrow> map_of result ''slots'' = Some sv
     \<Longrightarrow> \<forall>kvs. sv \<noteq> JObj kvs \<Longrightarrow> llm_parse_body env t = Inl Validation_error"
  by (cases sv) (simp_all add: llm_parse_body_def Let_def split: option.splits)

lemma llm_parse_body_bad_confidence:
  "complete env t = Llm_json (JObj result) \<Longrightarrow> map_of result ''confidence'' = Some cv
     \<Longrightarrow> to_float env cv = None \<Longrightarrow> llm_parse_body env t = Inl Validation_error"
  by (simp add: llm_parse_body_def Let_def split: option.splits json.splits)

lemma llm_parse_body_accepts:
  assumes "complete env t = Llm_json (JObj result)"
    and "map_of result ''slots'' = None \<and> kvs = [] \<or> map_of result ''slots'' = Some (JObj kvs)"
    and "map_of result ''confidence'' = None \<and> c = 7 / 10
         \<or> (\<exists>cv. map_of result ''confidence'' = Some cv \<and> to_float env cv = Some c)"
  shows "llm_parse_body env t
           = Inr \<lparr>intent = intent_type_of (case map_of result ''intent'' of
                                             None \<Rightarrow> JStr ''unknown'' | Some v \<Rightarrow> v),
                  slots = kvs, confidence = c, original_text = t\<rparr>"
  using assms by (auto simp: llm_parse_body_def Let_def)

lemma llm_parse_unrecognised:
  assumes "complete env t = Llm_json (JObj result)" and "map_of result ''intent'' = Some v"
    and "v \<notin> JStr ` set (map intent_value all_intent_types)"
  shows "intent (llm_parse env t) = UNKNOWN"
  using assms intent_type_of_unrecognised [OF assms(3)]
  by (simp add: llm_parse_def llm_parse_body_def Let_def unknown_intent_def
      split: option.splits json.splits)

text \<open>
  C7. Whatever the body of \<open>_llm_parse\<close> raises is caught, and the result then is
  \<open>UNKNOWN\<close> with confidence 0.0, no slots and the text. The body raises when the call
  of the classifier raises, when its content is no JSON text, when the JSON value is no
  object, when the \<open>slots\<close> of the object are no object and when its \<open>confidence\<close> is
  rejected by the validation. In each of these cases \<open>parse\<close>, when no rule matched,
  returns that unknown intent after one call of the classifier. A label in the answer
  that is no value of \<open>IntentType\<close> gives the kind \<open>UNKNOWN\<close>. An answer that passes the
  validation is returned with its slots and confidence (an absent one is 0.7) and the
  kind of its label. \<open>parse\<close> calls the classifier at most once.
\<close>

theorem llm_failure_is_unknown:
  "(llm_parse_body env t = Inl e \<longrightarrow> llm_parse env t = unknown_intent t)
   \<and> (complete env t = Llm_raises \<longrightarrow> llm_parse_body env t = Inl Api_error)
   \<and> (complete env t = Llm_malformed \<longrightarrow> llm_parse_body env t = Inl Json_decode_error)
   \<and> (complete env t = Llm_json jv \<and> (\<forall>result. jv \<noteq> JObj result)
        \<longrightarrow> llm_parse_body env t = Inl Attribute_error)
   \<and> (complete env t = Llm_json (JObj result) \<and> map_of result ''slots'' = Some sv
        \<and> (\<forall>kvs. sv \<noteq> JObj kvs)
        \<longrightarrow> llm_parse_body env t = Inl Validation_error)
   \<and> (complete env t = Llm_json (JObj result) \<and> map_of result ''confidence'' = Some cv
        \<and> to_float env cv = None
        \<longrightarrow> llm_parse_body env t = Inl Validation_error)
   \<and> ((\<forall>result. complete env t \<noteq> Llm_json (JObj result))
       \<longrightarrow> llm_parse env t = unknown_intent t)
   \<and> (rule_based_parse (strip (lower t)) = None \<and> llm_parse_body env t = Inl e
       \<longrightarrow> parse env t
             = (\<lparr>intent = UNKNOWN, slots = [], confidence = 0, original_text = t\<rparr>, 1))
   \<and> (rule_based_parse (strip (lower t)) = None
        \<and> (\<forall>result. complete env t \<noteq> Llm_json (JObj result))
       \<longrightarrow> parse env t
             = (\<lparr>intent = UNKNOWN, slots = [], confidence = 0, original_text = t\<rparr>, 1))
   \<and> (complete env t = Llm_json (JObj result) \<and> map_of result ''intent'' = Some v
        \<and> v \<notin> JStr ` set (map intent_value all_intent_types)
       \<longrightarrow> intent (llm_parse env t) = UNKNOWN)
   \<and> (complete env t = Llm_json (JObj result)
        \<and> (map_of result ''slots'' = None \<and> kvs = [] \<or> map_of result ''slots'' = Some (JObj kvs))
        \<and> (map_of result ''confidence'' = None \<and> c = 7 / 10
            \<or> (\<exists>cv. map_of result ''confidence'' = Some cv \<and> to_float env cv = Some c))
       \<longrightarrow> llm_parse env t
             = \<lparr>intent = intent_type_of (case map_of result ''intent'' of
                                           None \<Rightarrow> JStr ''unknown'' | Some v \<Rightarrow> v),
                slots = kvs, confidence = c, original_text = t\<rparr>)
   \<and> snd (parse env t) \<le> 1"
proof -
  have a: "llm_parse_body env t = Inl e \<longrightarrow> llm_parse env t = unknown_intent t"
    using llm_parse_caught by blast
  have b1: "complete env t = Llm_raises \<longrightarrow> llm_parse_body env t = Inl Api_error"
    by (simp add: llm_parse_body_def)
  have b2: "complete env t = Llm_malformed \<longrightarrow> llm_parse_body env t = Inl Json_decode_error"
    by (simp add: llm_parse_body_def)
  have b3: "complete env t = Llm_json jv \<and> (\<forall>result. jv \<noteq> JObj result)
        \<longrightarrow> llm_parse_body env t = Inl Attribute_error"
    using llm_parse_body_not_dict by blast
  have b4: "complete env t = Llm_json (JObj result) \<and> map_of result ''slots'' = Some sv
        \<and> (\<forall>kvs. sv \<noteq> JObj kvs)
        \<longrightarrow> llm_parse_body env t = Inl Validation_error"
    using llm_parse_body_bad_slots by blast
  have b5: "complete env t = Llm_json (JObj result) \<and> map_of result ''confidence'' = Some cv
        \<and> to_float env cv = None
        \<longrightarrow> llm_parse_body env t = Inl Validation_error"
    using llm_parse_body_bad_confidence by blast
  have c: "(\<forall>result. complete env t \<noteq> Llm_json (JObj result))
       \<longrightarrow> llm_parse env t = unknown_intent t"
    using llm_parse_body_no_object [of env t] llm_parse_caught by blast
  have d1: "rule_based_parse (strip (lower t)) = None \<and> llm_parse_body env t = Inl e
       \<longrightarrow> parse env t
             = (\<lparr>intent = UNKNOWN, slots = [], confidence = 0, original_text = t\<rparr>, 1)"
    by (auto simp: parse_def Let_def llm_parse_def unknown_intent_def)
  have d2: "rule_based_parse (strip (lower t)) = None
        \<and> (\<forall>result. complete env t \<noteq> Llm_json (JObj result))
       \<longrightarrow> parse env t
             = (\<lparr>intent = UNKNOWN, slots = [], confidence = 0, original_text = t\<rparr>, 1)"
    using c by (auto simp: parse_def Let_def unknown_intent_def)
  have f: "complete env t = Llm_json (JObj result) \<and> map_of result ''intent'' = Some v
        \<and> v \<notin> JStr ` set (map intent_value all_intent_types)
       \<longrightarrow> intent (llm_parse env t) = UNKNOWN"
    using llm_parse_unrecognised by blast
  have g: "complete env t = Llm_json (JObj result)
        \<and> (map_of result ''slots'' = None \<and> kvs = [] \<or> map_of result ''slots'' = Some (JObj kvs))
        \<and> (map_of result ''confidence'' = None \<and> c = 7 / 10
            \<or> (\<exists>cv. map_of result ''confidence'' = Some cv \<and> to_float env cv = Some c))
       \<longrightarrow> llm_parse env t
             = \<lparr>intent = intent_type_of (case map_of result ''intent'' of
                                           None \<Rightarrow> JStr ''unknown'' | Some v \<Rightarrow> v),
                slots = kvs, confidence = c, original_text = t\<rparr>"
  proof (intro impI, elim conjE)
    assume 1: "complete env t = Llm_json (JObj result)"
      and 2: "map_of result ''slots'' = None \<and> kvs = [] \<or> map_of result ''slots'' = Some (JObj kvs)"
      and 3: "map_of result ''confidence'' = None \<and> c = 7 / 10
            \<or> (\<exists>cv. map_of result ''confidence'' = Some cv \<and> to_float env cv = Some c)"
    from llm_parse_body_accepts [OF 1 2 3] show "llm_parse env t
             = \<lparr>intent = intent_type_of (case map_of result ''intent'' of
                                           None \<Rightarrow> JStr ''unknown'' | Some v \<Rightarrow> v),
                slots = kvs, confidence = c, original_text = t\<rparr>"
      by (simp add: llm_parse_def)
  qed
  have h: "snd (parse env t) \<le> 1"
    by (simp add: parse_def Let_def split: option.splits)
  from a b1 b2 b3 b4 b5 c d1 d2 f g h show ?thesis by (intro conjI)
qed

lemma jazz_text: "strip (lower ''Play some jazz'') = ''play some jazz''"
  by code_simp

lemma jazz_rule: "rule_based_parse ''play some jazz'' = None"
  by code_simp

theorem llm_failure_is_unknown_witness:
  "rule_based_parse (strip (lower ''Play some jazz'')) = None
   \<and> parse offline_llm ''Play some jazz''
       = (\<lparr>intent = UNKNOWN, slots = [], confidence = 0, original_text = ''Play some jazz''\<rparr>, 1)
   \<and> parse (offline_llm\<lparr>complete := (\<lambda>t. Llm_malformed)\<rparr>) ''Play some jazz''
       = (\<lparr>intent = UNKNOWN, slots = [], confidence = 0, original_text = ''Play some jazz''\<rparr>, 1)
   \<and> parse (offline_llm\<lparr>complete := (\<lambda>t. Llm_json (JArr []))\<rparr>) ''Play some jazz''
       = (\<lparr>intent = UNKNOWN, slots = [], confidence = 0, original_text = ''Play some jazz''\<rparr>, 1)
   \<and> complete sloppy_llm ''Play some jazz''
       = Llm_json (JObj [(''intent'', JStr ''set_alarm''), (''slots'', JStr ''7 am''),
                         (''confidence'', JNum (9 / 10))])
   \<and> parse sloppy_llm ''Play some jazz''
       = (\<lparr>intent = UNKNOWN, slots = [], confidence = 0, original_text = ''Play some jazz''\<rparr>, 1)
   \<and> parse (music_llm\<lparr>complete := (\<lambda>t. Llm_json (JObj [(''intent'', JStr ''set_alarm''),
                                        (''confidence'', JStr ''high'')]))\<rparr>) ''Play some jazz''
       = (\<lparr>intent = UNKNOWN, slots = [], confidence = 0, original_text = ''Play some jazz''\<rparr>, 1)
   \<and> complete music_llm ''Play some jazz''
       = Llm_json (JObj [(''intent'', JStr ''play_music''), (''slots'', JObj []),
                         (''confidence'', JNum (95 / 100))])
   \<and> JStr ''play_music'' \<notin> JStr ` set (map intent_value all_intent_types)
   \<and> llm_parse music_llm ''Play some jazz''
       = \<lparr>intent = UNKNOWN, slots = [], confidence = 95 / 100,
          original_text = ''Play some jazz''\<rparr>"
proof -
  let ?t = "''Play some jazz''"
  let ?u = "(\<lparr>intent = UNKNOWN, slots = [], confidence = 0, original_text = ?t\<rparr>, 1::nat)"
  let ?malformed = "offline_llm\<lparr>complete := (\<lambda>t. Llm_malformed)\<rparr>"
  let ?array = "offline_llm\<lparr>complete := (\<lambda>t. Llm_json (JArr []))\<rparr>"
  let ?sloppy = "[(''intent'', JStr ''set_alarm''), (''slots'', JStr ''7 am''),
                  (''confidence'', JNum (9 / 10))]"
  let ?vague = "[(''intent'', JStr ''set_alarm''), (''confidence'', JStr ''high'')]"
  let ?vague_llm = "music_llm\<lparr>complete := (\<lambda>t. Llm_json (JObj ?vague))\<rparr>"
  let ?music = "[(''intent'', JStr ''play_music''), (''slots'', JObj []),
                 (''confidence'', JNum (95 / 100))]"
  have r: "rule_based_parse (strip (lower ?t)) = None"
    unfolding jazz_text jazz_rule by simp
  have "complete offline_llm ?t = Llm_raises" by (simp add: offline_llm_def)
  with llm_failure_is_unknown [of offline_llm ?t Api_error] r
  have p1: "parse offline_llm ?t = ?u" by blast
  have "complete ?malformed ?t = Llm_malformed" by simp
  with llm_failure_is_unknown [of ?malformed ?t Json_decode_error] r
  have p2: "parse ?malformed ?t = ?u" by blast
  have "complete ?array ?t = Llm_json (JArr []) \<and> (\<forall>result. JArr [] \<noteq> JObj result)" by simp
  with llm_failure_is_unknown [of ?array ?t Attribute_error "JArr []"] r
  have p3: "parse ?array ?t = ?u" by blast
  have s: "complete sloppy_llm ?t = Llm_json (JObj ?sloppy)" by (simp add: sloppy_llm_def)
  have "map_of ?sloppy ''slots'' = Some (JStr ''7 am'') \<and> (\<forall>kvs. JStr ''7 am'' \<noteq> JObj kvs)"
    by simp
  with llm_failure_is_unknown [of sloppy_llm ?t Validation_error _ ?sloppy "JStr ''7 am''"] r s
  have p4: "parse sloppy_llm ?t = ?u" by blast
  have "complete ?vague_llm ?t = Llm_json (JObj ?vague)
        \<and> map_of ?vague ''confidence'' = Some (JStr ''high'')
        \<and> to_float ?vague_llm (JStr ''high'') = None"
    by (simp add: music_llm_def)
  with llm_failure_is_unknown [of ?vague_llm ?t Validation_error _ ?vague _ "JStr ''high''"] r
  have p5: "parse ?vague_llm ?t = ?u" by blast
  have c: "complete music_llm ?t = Llm_json (JObj ?music)" by (simp add: music_llm_def)
  have n: "JStr ''play_music'' \<notin> JStr ` set (map intent_value all_intent_types)"
    by (auto simp: all_intent_types_def)
  have m: "map_of ?music ''slots'' = Some (JObj [])
           \<and> map_of ?music ''confidence'' = Some (JNum (95 / 100))
           \<and> to_float music_llm (JNum (95 / 100)) = Some (95 / 100)
           \<and> map_of ?music ''intent'' = Some (JStr ''play_music'')"
    by (simp add: music_llm_def)
  from llm_failure_is_unknown [of music_llm ?t _ _ ?music _ _ _ "[]" "95 / 100"] c m
  have "llm_parse music_llm ?t
          = \<lparr>intent = intent_type_of (case map_of ?music ''intent'' of
                                           None \<Rightarrow> JStr ''unknown'' | Some v \<Rightarrow> v),
             slots = [], confidence = 95 / 100, original_text = ?t\<rparr>"
    by blast
  with m intent_type_of_unrecognised [OF n]
  have p6: "llm_parse music_llm ?t
          = \<lparr>intent = UNKNOWN, slots = [], confidence = 95 / 100, original_text = ?t\<rparr>"
    by simp
  from r p1 p2 p3 s p4 p5 c n p6 show ?thesis by (intro conjI)
qed

section \<open>Properties of the command router\<close>

lemma contains_iff: "contains sub s \<longleftrightarrow> (\<exists>a b. s = a @ sub @ b)"
proof (induction s)
  case Nil
  show ?case by auto
next
  case (Cons c cs)
  show ?case
  proof
    assume "contains sub (c # cs)"
    then consider "take (length sub) (c # cs) = sub" | "contains sub cs" by auto
    then show "\<exists>a b. c # cs = a @ sub @ b"
    proof cases
      case 1
      then have "c # cs = [] @ sub @ drop (length sub) (c # cs)"
        by (metis append_Nil append_take_drop_id)
      then show ?thesis by blast
    next
      case 2
      with Cons obtain a b where "cs = a @ sub @ b" by blast
      then have "c # cs = (c # a) @ sub @ b" by simp
      then show ?thesis by blast
    qed
  next
    assume "\<exists>a b. c # cs = a @ sub @ b"
    then obtain a b where ab: "c # cs = a @ sub @ b" by blast
    show "contains sub (c # cs)"
    proof (cases a)
      case Nil
      with ab have "take (length sub) (c # cs) = sub" by simp
      then show ?thesis by simp
    next
      case (Cons x a')
      with ab have "cs = a' @ sub @ b" by simp
      with Cons.IH have "contains sub cs" by blast
      then show ?thesis by simp
    qed
  qed
qed

lemma join_has_member:
  "x \<in> set xs \<Longrightarrow> \<exists>a b. join sep xs = a @ x @ b"
proof (induction sep xs rule: join.induct)
  case (1 sep)
  then show ?case by simp
next
  case (2 sep y)
  then have "join sep [y] = [] @ x @ []" by simp
  then show ?case by blast
next
  case (3 sep y z zs)
  show ?case
  proof (cases "x = y")
    case True
    then have "join sep (y # z # zs) = [] @ x @ (sep @ join sep (z # zs))" by simp
    then show ?thesis by blast
  next
    case False
    with 3 obtain a b where "join sep (z # zs) = a @ x @ b" by auto
    then have "join sep (y # z # zs) = (y @ sep @ a) @ x @ b" by simp
    then show ?thesis by blast
  qed
qed

lemma message_names_member:
  assumes "x \<in> set xs"
  shows "contains x (pre @ join sep xs)"
proof -
  from join_has_member [OF assms] obtain a b where "join sep xs = a @ x @ b" by blast
  then have "pre @ join sep xs = (pre @ a) @ x @ b" by simp
  then show ?thesis unfolding contains_iff by blast
qed

lemma route_search_flights_missing:
  assumes "intent i = SEARCH_FLIGHTS" and "missing_slots i \<noteq> []"
  shows "route env i uid user_context st
           = ([(''status'', JStr ''missing_slots''),
               (''message'', JStr (''I need the following information: ''
                                     @ join '', '' (missing_slots i)))], st)"
  using assms by (simp add: route_def handle_search_flights_def Let_def)

lemma nowhere_text: "strip (lower ''find flights to nowhere'') = ''find flights to nowhere''"
  by code_simp

lemma nowhere_rule:
  "rule_based_parse ''find flights to nowhere''
     = Some \<lparr>intent = SEARCH_FLIGHTS, slots = [(''destination'', JStr ''nowhere'')],
             confidence = 9 / 10, original_text = ''find flights to nowhere''\<rparr>"
  by code_simp

lemma nowhere_parse:
  "parse env ''find flights to nowhere''
     = (\<lparr>intent = SEARCH_FLIGHTS, slots = [(''destination'', JStr ''nowhere'')],
          confidence = 9 / 10, original_text = ''find flights to nowhere''\<rparr>, 0)"
  unfolding parse_def Let_def nowhere_text nowhere_rule by simp

lemma nowhere_missing:
  "missing_slots \<lparr>intent = SEARCH_FLIGHTS, slots = [(''destination'', JStr ''nowhere'')],
          confidence = 9 / 10, original_text = ''find flights to nowhere''\<rparr>
     = [''source city'', ''travel date'']"
  by (simp add: missing_slots_def falsy_slot_def)

lemma nowhere_route:
  "route env (fst (parse lenv ''find flights to nowhere'')) uid user_context st
     = ([(''status'', JStr ''missing_slots''),
         (''message'', JStr ''I need the following information: source city, travel date'')],
        st)"
proof -
  let ?i = "\<lparr>intent = SEARCH_FLIGHTS, slots = [(''destination'', JStr ''nowhere'')],
          confidence = 9 / 10, original_text = ''find flights to nowhere''\<rparr>"
  have "route env ?i uid user_context st
           = ([(''status'', JStr ''missing_slots''),
               (''message'', JStr (''I need the following information: ''
                                     @ join '', '' (missing_slots ?i)))], st)"
    by (rule route_search_flights_missing) (simp_all add: nowhere_missing)
  then show ?thesis by (simp add: nowhere_parse nowhere_missing)
qed

text \<open>
  C8, as the code has it. For a \<open>SEARCH_FLIGHTS\<close> intent with a missing slot the router
  returns one \<open>missing_slots\<close> result whose message lists, after a fixed opening, the
  names of all missing fields: \<open>source city\<close>, \<open>destination city\<close> and \<open>travel date\<close>
  are in the list exactly when the slot is absent or falsy, and every listed name occurs
  in the message. For \<open>find flights to nowhere\<close> the destination is extracted as
  \<open>nowhere\<close>, and the message names \<open>source city\<close> and \<open>travel date\<close>.
\<close>

theorem search_flights_names_all_missing:
  "(intent i = SEARCH_FLIGHTS \<and> missing_slots i \<noteq> []
      \<longrightarrow> route env i uid user_context st
            = ([(''status'', JStr ''missing_slots''),
                (''message'', JStr (''I need the following information: ''
                                      @ join '', '' (missing_slots i)))], st))
   \<and> (''source city'' \<in> set (missing_slots i) \<longleftrightarrow> falsy_slot (map_of (slots i) ''source''))
   \<and> (''destination city'' \<in> set (missing_slots i)
        \<longleftrightarrow> falsy_slot (map_of (slots i) ''destination''))
   \<and> (''travel date'' \<in> set (missing_slots i) \<longleftrightarrow> falsy_slot (map_of (slots i) ''date''))
   \<and> (\<forall>n \<in> set (missing_slots i).
         contains n (''I need the following information: '' @ join '', '' (missing_slots i)))
   \<and> slots (fst (parse lenv ''find flights to nowhere'')) = [(''destination'', JStr ''nowhere'')]
   \<and> route env (fst (parse lenv ''find flights to nowhere'')) uid user_context st
       = ([(''status'', JStr ''missing_slots''),
           (''message'', JStr ''I need the following information: source city, travel date'')],
          st)"
proof -
  have a: "intent i = SEARCH_FLIGHTS \<and> missing_slots i \<noteq> []
      \<longrightarrow> route env i uid user_context st
            = ([(''status'', JStr ''missing_slots''),
                (''message'', JStr (''I need the following information: ''
                                      @ join '', '' (missing_slots i)))], st)"
    using route_search_flights_missing by blast
  have b: "''source city'' \<in> set (missing_slots i) \<longleftrightarrow> falsy_slot (map_of (slots i) ''source'')"
    by (simp add: missing_slots_def)
  have c: "''destination city'' \<in> set (missing_slots i)
        \<longleftrightarrow> falsy_slot (map_of (slots i) ''destination'')"
    by (simp add: missing_slots_def)
  have d: "''travel date'' \<in> set (missing_slots i) \<longleftrightarrow> falsy_slot (map_of (slots i) ''date'')"
    by (simp add: missing_slots_def)
  have e: "\<forall>n \<in> set (missing_slots i).
         contains n (''I need the following information: '' @ join '', '' (missing_slots i))"
    using message_names_member by blast
  have f: "slots (fst (parse lenv ''find flights to nowhere''))
             = [(''destination'', JStr ''nowhere'')]"
    by (simp add: nowhere_parse)
  from a b c d e f nowhere_route show ?thesis by blast
qed

theorem search_flights_names_all_missing_witness:
  "intent (fst (parse offline_llm ''find flights to nowhere'')) = SEARCH_FLIGHTS
   \<and> missing_slots (fst (parse offline_llm ''find flights to nowhere'')) \<noteq> []
   \<and> ''source city'' \<in> set (missing_slots (fst (parse offline_llm ''find flights to nowhere'')))
   \<and> route sample_router (fst (parse offline_llm ''find flights to nowhere'')) ''u1'' [] no_alarms
       = ([(''status'', JStr ''missing_slots''),
           (''message'', JStr ''I need the following information: source city, travel date'')],
          no_alarms)
   \<and> contains ''source city'' (''I need the following information: ''
        @ join '', '' (missing_slots (fst (parse offline_llm ''find flights to nowhere''))))"
proof -
  let ?i = "fst (parse offline_llm ''find flights to nowhere'')"
  have k: "intent ?i = SEARCH_FLIGHTS" by (simp add: nowhere_parse)
  have m: "missing_slots ?i \<noteq> []" by (simp add: nowhere_parse nowhere_missing)
  have s: "''source city'' \<in> set (missing_slots ?i)" by (simp add: nowhere_parse nowhere_missing)
  note t = search_flights_names_all_missing [of ?i sample_router "''u1''" "[]" no_alarms offline_llm]
  from t have r: "route sample_router ?i ''u1'' [] no_alarms
       = ([(''status'', JStr ''missing_slots''),
           (''message'', JStr ''I need the following information: source city, travel date'')],
          no_alarms)"
    by blast
  from t s have c: "contains ''source city'' (''I need the following information: ''
        @ join '', '' (missing_slots ?i))"
    by blast
  from k m s r c show ?thesis by blast
qed

text \<open>
  C8 as it is written fails on its example: for \<open>find flights to nowhere\<close> the slot
  \<open>destination\<close> is present, and the message does not name \<open>destination city\<close>.
\<close>

theorem nowhere_names_source_counterexample:
  "map_of (slots (fst (parse offline_llm ''find flights to nowhere''))) ''destination''
     = Some (JStr ''nowhere'')
   \<and> message_of (fst (route sample_router (fst (parse offline_llm ''find flights to nowhere''))
                        ''u1'' [] no_alarms))
     = ''I need the following information: source city, travel date''
   \<and> \<not> contains ''destination city''
         (message_of (fst (route sample_router
            (fst (parse offline_llm ''find flights to nowhere'')) ''u1'' [] no_alarms)))"
proof -
  have c: "\<not> contains ''destination city''
             ''I need the following information: source city, travel date''"
    by code_simp
  show ?thesis
    unfolding nowhere_route by (simp add: nowhere_parse message_of_def c)
qed

section \<open>Properties of the orchestrator\<close>

lemma text_to_speech_returned:
  "speech_create p x = Some a \<Longrightarrow> text_to_speech (speech_create p) x = a"
  by (simp add: text_to_speech_def)

lemma text_to_speech_failed:
  "speech_create p x = None \<Longrightarrow> text_to_speech (speech_create p) x = []"
  by (simp add: text_to_speech_def)

lemma process_conversation_failure:
  "run_stages p request = Inl e \<Longrightarrow>
     process_conversation p request
       = (\<lparr>success = False, text_response = error_response,
           audio_response = Some (case speech_create p error_response of
                                    None \<Rightarrow> [] | Some a \<Rightarrow> a),
           response_intent = ''error'', response_confidence = 0,
           data = Some [(''error'', JStr e)]\<rparr>, [error_response])"
  by (simp add: process_conversation_def text_to_speech_def)

lemma process_conversation_success:
  "run_stages p request = Inr (reply, i, action_result) \<Longrightarrow>
     process_conversation p request
       = (\<lparr>success = True, text_response = reply,
           audio_response = Some (case speech_create p reply of None \<Rightarrow> [] | Some a \<Rightarrow> a),
           response_intent = intent_value (intent i), response_confidence = confidence i,
           data = Some action_result\<rparr>, [reply])"
  by (simp add: process_conversation_def text_to_speech_def)

lemma one_synthesis: "length (snd (process_conversation p request)) = 1"
  by (simp add: process_conversation_def split: sum.splits prod.splits)

lemma run_stages_raises:
  assumes "get_text_input p request = Inl e
     \<or> (\<exists>t. get_text_input p request = Inr t
          \<and> (parse_stage p t = Inl e
             \<or> (\<exists>i. parse_stage p t = Inr i
                  \<and> (get_user_context p (req_user_id request) (intent i) = Inl e
                     \<or> (\<exists>user_context.
                           get_user_context p (req_user_id request) (intent i) = Inr user_context
                           \<and> (store_conversation p (req_user_id request) t (intent i) = Some e
                              \<or> store_conversation p (req_user_id request) t (intent i) = None
                                \<and> (route_stage p i (req_user_id request) user_context = Inl e
                                   \<or> (\<exists>action_result.
                                         route_stage p i (req_user_id request) user_context
                                           = Inr action_result
                                         \<and> build_response p i action_result user_context
                                             = Inl e))))))))"
  shows "run_stages p request = Inl e"
  using assms by (auto simp: run_stages_def)

lemma run_stages_returns:
  assumes "get_text_input p request = Inr t" and "parse_stage p t = Inr i"
    and "get_user_context p (req_user_id request) (intent i) = Inr user_context"
    and "store_conversation p (req_user_id request) t (intent i) = None"
    and "route_stage p i (req_user_id request) user_context = Inr action_result"
    and "build_response p i action_result user_context = Inr reply"
  shows "run_stages p request = Inr (reply, i, action_result)"
  using assms by (simp add: run_stages_def)

text \<open>
  C9. When a stage raises (the text input, the parser, the context, the storing of the
  turn, the router or the response builder), \<open>process_conversation\<close> returns the
  response with \<open>success = False\<close>, the fixed apology as its text, the intent \<open>error\<close>,
  the confidence 0.0 and the text of the exception as its data; the apology is the one
  text handed to the speech synthesis, and the audio of the response is what the
  synthesis returned for it, or the empty text when the synthesis raised. When every
  stage returns, the response has \<open>success = True\<close>, the reply, the audio the synthesis
  returned for the reply, or the empty text, and the intent, confidence and result of
  the stages. A request with neither text nor audio fails in the first stage. Each call
  hands exactly one text to the synthesis.
\<close>

theorem process_conversation_always_responds:
  "((get_text_input p request = Inl e
     \<or> (\<exists>t. get_text_input p request = Inr t
          \<and> (parse_stage p t = Inl e
             \<or> (\<exists>i. parse_stage p t = Inr i
                  \<and> (get_user_context p (req_user_id request) (intent i) = Inl e
                     \<or> (\<exists>user_context.
                           get_user_context p (req_user_id request) (intent i) = Inr user_context
                           \<and> (store_conversation p (req_user_id request) t (intent i) = Some e
                              \<or> store_conversation p (req_user_id request) t (intent i) = None
                                \<and> (route_stage p i (req_user_id request) user_context = Inl e
                                   \<or> (\<exists>action_result.
                                         route_stage p i (req_user_id request) user_context
                                           = Inr action_result
                                         \<and> build_response p i action_result user_context
                                             = Inl e)))))))))
      \<longrightarrow> process_conversation p request
        = (\<lparr>success = False, text_response = error_response,
            audio_response = Some (case speech_create p error_response of
                                     None \<Rightarrow> [] | Some a \<Rightarrow> a),
            response_intent = ''error'', response_confidence = 0,
            data = Some [(''error'', JStr e)]\<rparr>, [error_response]))
   \<and> (get_text_input p request = Inr t \<and> parse_stage p t = Inr i
        \<and> get_user_context p (req_user_id request) (intent i) = Inr user_context
        \<and> store_conversation p (req_user_id request) t (intent i) = None
        \<and> route_stage p i (req_user_id request) user_context = Inr action_result
        \<and> build_response p i action_result user_context = Inr reply
      \<longrightarrow> process_conversation p request
        = (\<lparr>success = True, text_response = reply,
            audio_response = Some (case speech_create p reply of None \<Rightarrow> [] | Some a \<Rightarrow> a),
            response_intent = intent_value (intent i), response_confidence = confidence i,
            data = Some action_result\<rparr>, [reply]))
   \<and> (run_stages p request = Inl e \<longrightarrow>
      process_conversation p request
        = (\<lparr>success = False, text_response = error_response,
            audio_response = Some (text_to_speech (speech_create p) error_response),
            response_intent = ''error'', response_confidence = 0,
            data = Some [(''error'', JStr e)]\<rparr>, [error_response]))
   \<and> (run_stages p request = Inr (reply, i, action_result) \<longrightarrow>
      process_conversation p request
        = (\<lparr>success = True, text_response = reply,
            audio_response = Some (text_to_speech (speech_create p) reply),
            response_intent = intent_value (intent i), response_confidence = confidence i,
            data = Some action_result\<rparr>, [reply]))
   \<and> (speech_create p x = Some a \<longrightarrow> text_to_speech (speech_create p) x = a)
   \<and> (speech_create p x = None \<longrightarrow> text_to_speech (speech_create p) x = [])
   \<and> ((req_text request = None \<or> req_text request = Some [])
        \<and> (req_audio request = None \<or> req_audio request = Some [])
      \<longrightarrow> get_text_input p request
            = Inl (''Either '' @ [CHR 0x27] @ ''text'' @ [CHR 0x27] @ '' or '' @ [CHR 0x27]
                   @ ''audio'' @ [CHR 0x27] @ '' must be provided''))
   \<and> length (snd (process_conversation p request)) = 1"
proof -
  have a: "(get_text_input p request = Inl e
     \<or> (\<exists>t. get_text_input p request = Inr t
          \<and> (parse_stage p t = Inl e
             \<or> (\<exists>i. parse_stage p t = Inr i
                  \<and> (get_user_context p (req_user_id request) (intent i) = Inl e
                     \<or> (\<exists>user_context.
                           get_user_context p (req_user_id request) (intent i) = Inr user_context
                           \<and> (store_conversation p (req_user_id request) t (intent i) = Some e
                              \<or> store_conversation p (req_user_id request) t (intent i) = None
                                \<and> (route_stage p i (req_user_id request) user_context = Inl e
                                   \<or> (\<exists>action_result.
                                         route_stage p i (req_user_id request) user_context
                                           = Inr action_result
                                         \<and> build_response p i action_result user_context
                                             = Inl e)))))))))
      \<longrightarrow> process_conversation p request
        = (\<lparr>success = False, text_response = error_response,
            audio_response = Some (case speech_create p error_response of
                                     None \<Rightarrow> [] | Some a \<Rightarrow> a),
            response_intent = ''error'', response_confidence = 0,
            data = Some [(''error'', JStr e)]\<rparr>, [error_response])"
    using run_stages_raises [of p request e] process_conversation_failure [of p request e]
    by blast
  have b: "get_text_input p request = Inr t \<and> parse_stage p t = Inr i
        \<and> get_user_context p (req_user_id request) (intent i) = Inr user_context
        \<and> store_conversation p (req_user_id request) t (intent i) = None
        \<and> route_stage p i (req_user_id request) user_context = Inr action_result
        \<and> build_response p i action_result user_context = Inr reply
      \<longrightarrow> process_conversation p request
        = (\<lparr>success = True, text_response = reply,
            audio_response = Some (case speech_create p reply of None \<Rightarrow> [] | Some a \<Rightarrow> a),
            response_intent = intent_value (intent i), response_confidence = confidence i,
            data = Some action_result\<rparr>, [reply])"
    using run_stages_returns [of p request t i user_context action_result reply]
      process_conversation_success [of p request reply i action_result]
    by blast
  have c: "run_stages p request = Inl e \<longrightarrow>
      process_conversation p request
        = (\<lparr>success = False, text_response = error_response,
            audio_response = Some (text_to_speech (speech_create p) error_response),
            response_intent = ''error'', response_confidence = 0,
            data = Some [(''error'', JStr e)]\<rparr>, [error_response])"
    by (simp add: process_conversation_def)
  have d: "run_stages p request = Inr (reply, i, action_result) \<longrightarrow>
      process_conversation p request
        = (\<lparr>success = True, text_response = reply,
            audio_response = Some (text_to_speech (speech_create p) reply),
            response_intent = intent_value (intent i), response_confidence = confidence i,
            data = Some action_result\<rparr>, [reply])"
    by (simp add: process_conversation_def)
  have f: "(req_text request = None \<or> req_text request = Some [])
        \<and> (req_audio request = None \<or> req_audio request = Some [])
      \<longrightarrow> get_text_input p request
            = Inl (''Either '' @ [CHR 0x27] @ ''text'' @ [CHR 0x27] @ '' or '' @ [CHR 0x27]
                   @ ''audio'' @ [CHR 0x27] @ '' must be provided'')"
    by (auto simp: get_text_input_def)
  from a b c d text_to_speech_returned [of p x a] text_to_speech_failed [of p x] f
    one_synthesis [of p request]
  show ?thesis by (intro conjI impI) blast+
qed

lemma empty_request_input:
  "get_text_input pl empty_request
     = Inl (''Either '' @ [CHR 0x27] @ ''text'' @ [CHR 0x27] @ '' or '' @ [CHR 0x27]
            @ ''audio'' @ [CHR 0x27] @ '' must be provided'')"
  by (simp add: get_text_input_def empty_request_def)

lemma jazz_parse: "parse offline_llm ''Play some jazz'' = (unknown_intent ''Play some jazz'', 1)"
  by (simp add: parse_def Let_def jazz_text jazz_rule llm_parse_def llm_parse_body_def
      offline_llm_def)

lemma unknown_route:
  "fst (route sample_router (unknown_intent t) uid user_context st)
     = [(''status'', JStr ''unknown_intent''),
        (''message'', JStr (''I'' @ [CHR 0x27] @ ''m not sure how to help with that yet.''))]"
  by (simp add: route_def unknown_intent_def)

theorem process_conversation_always_responds_witness:
  "get_text_input sample_pipeline empty_request
     = Inl (''Either '' @ [CHR 0x27] @ ''text'' @ [CHR 0x27] @ '' or '' @ [CHR 0x27]
            @ ''audio'' @ [CHR 0x27] @ '' must be provided'')
   \<and> speech_create sample_pipeline error_response = None
   \<and> process_conversation sample_pipeline empty_request
       = (\<lparr>success = False, text_response = error_response,
           audio_response = Some [],
           response_intent = ''error'', response_confidence = 0,
           data = Some [(''error'', JStr (''Either '' @ [CHR 0x27] @ ''text'' @ [CHR 0x27]
              @ '' or '' @ [CHR 0x27] @ ''audio'' @ [CHR 0x27] @ '' must be provided''))]\<rparr>,
          [error_response])
   \<and> speech_create speaking_pipeline error_response = Some ''QVVESU8=''
   \<and> process_conversation speaking_pipeline empty_request
       = (\<lparr>success = False, text_response = error_response,
           audio_response = Some ''QVVESU8='',
           response_intent = ''error'', response_confidence = 0,
           data = Some [(''error'', JStr (''Either '' @ [CHR 0x27] @ ''text'' @ [CHR 0x27]
              @ '' or '' @ [CHR 0x27] @ ''audio'' @ [CHR 0x27] @ '' must be provided''))]\<rparr>,
          [error_response])
   \<and> process_conversation speaking_pipeline
         \<lparr>req_user_id = ''u1'', req_audio = None, req_text = Some ''Play some jazz''\<rparr>
       = (\<lparr>success = True,
           text_response = ''I'' @ [CHR 0x27] @ ''m not sure how to help with that yet.'',
           audio_response = Some ''QVVESU8='',
           response_intent = ''unknown'', response_confidence = 0,
           data = Some [(''status'', JStr ''unknown_intent''),
                        (''message'', JStr (''I'' @ [CHR 0x27]
                           @ ''m not sure how to help with that yet.''))]\<rparr>,
          [''I'' @ [CHR 0x27] @ ''m not sure how to help with that yet.''])"
proof -
  let ?e = "''Either '' @ [CHR 0x27] @ ''text'' @ [CHR 0x27] @ '' or '' @ [CHR 0x27]
            @ ''audio'' @ [CHR 0x27] @ '' must be provided''"
  let ?req = "\<lparr>req_user_id = ''u1'', req_audio = None, req_text = Some ''Play some jazz''\<rparr>"
  let ?uc = "[(''preferences'', JObj []), (''recent_conversations'', JArr [])]"
  let ?ar = "[(''status'', JStr ''unknown_intent''),
              (''message'', JStr (''I'' @ [CHR 0x27] @ ''m not sure how to help with that yet.''))]"
  let ?reply = "''I'' @ [CHR 0x27] @ ''m not sure how to help with that yet.''"
  have s1: "speech_create sample_pipeline error_response = None"
    by (simp add: sample_pipeline_def)
  have s2: "speech_create speaking_pipeline error_response = Some ''QVVESU8=''"
    by (simp add: speaking_pipeline_def)
  from process_conversation_always_responds [of sample_pipeline empty_request ?e]
    empty_request_input [of sample_pipeline]
  have "process_conversation sample_pipeline empty_request
        = (\<lparr>success = False, text_response = error_response,
            audio_response = Some (case speech_create sample_pipeline error_response of
                                     None \<Rightarrow> [] | Some a \<Rightarrow> a),
            response_intent = ''error'', response_confidence = 0,
            data = Some [(''error'', JStr ?e)]\<rparr>, [error_response])"
    by blast
  with s1 have a: "process_conversation sample_pipeline empty_request
        = (\<lparr>success = False, text_response = error_response, audio_response = Some [],
            response_intent = ''error'', response_confidence = 0,
            data = Some [(''error'', JStr ?e)]\<rparr>, [error_response])"
    by simp
  from process_conversation_always_responds [of speaking_pipeline empty_request ?e]
    empty_request_input [of speaking_pipeline]
  have "process_conversation speaking_pipeline empty_request
        = (\<lparr>success = False, text_response = error_response,
            audio_response = Some (case speech_create speaking_pipeline error_response of
                                     None \<Rightarrow> [] | Some a \<Rightarrow> a),
            response_intent = ''error'', response_confidence = 0,
            data = Some [(''error'', JStr ?e)]\<rparr>, [error_response])"
    by blast
  with s2 have b: "process_conversation speaking_pipeline empty_request
        = (\<lparr>success = False, text_response = error_response, audio_response = Some ''QVVESU8='',
            response_intent = ''error'', response_confidence = 0,
            data = Some [(''error'', JStr ?e)]\<rparr>, [error_response])"
    by simp
  have g: "get_text_input speaking_pipeline ?req = Inr ''Play some jazz''
        \<and> parse_stage speaking_pipeline ''Play some jazz'' = Inr (unknown_intent ''Play some jazz'')
        \<and> get_user_context speaking_pipeline (req_user_id ?req)
              (intent (unknown_intent ''Play some jazz'')) = Inr ?uc
        \<and> store_conversation speaking_pipeline (req_user_id ?req) ''Play some jazz''
              (intent (unknown_intent ''Play some jazz'')) = None
        \<and> route_stage speaking_pipeline (unknown_intent ''Play some jazz'') (req_user_id ?req) ?uc
              = Inr ?ar
        \<and> build_response speaking_pipeline (unknown_intent ''Play some jazz'') ?ar ?uc = Inr ?reply"
    by (simp add: get_text_input_def speaking_pipeline_def sample_pipeline_def jazz_parse
        unknown_route message_of_def)
  from process_conversation_always_responds [of speaking_pipeline ?req _ "''Play some jazz''"
      "unknown_intent ''Play some jazz''" ?uc ?ar ?reply] g
  have "process_conversation speaking_pipeline ?req
        = (\<lparr>success = True, text_response = ?reply,
            audio_response = Some (case speech_create speaking_pipeline ?reply of
                                     None \<Rightarrow> [] | Some a \<Rightarrow> a),
            response_intent = intent_value (intent (unknown_intent ''Play some jazz'')),
            response_confidence = confidence (unknown_intent ''Play some jazz''),
            data = Some ?ar\<rparr>, [?reply])"
    by blast
  then have c: "process_conversation speaking_pipeline ?req
        = (\<lparr>success = True, text_response = ?reply, audio_response = Some ''QVVESU8='',
            response_intent = ''unknown'', response_confidence = 0,
            data = Some ?ar\<rparr>, [?reply])"
    by (simp add: speaking_pipeline_def unknown_intent_def)
  from empty_request_input [of sample_pipeline] s1 a s2 b c show ?thesis by (intro conjI)
qed

section \<open>Properties of the alarm service\<close>

lemma midnight_floor: "(x::int) < (x div DAY) * DAY + DAY"
proof -
  have "x mod DAY < DAY" by (simp add: DAY_def)
  moreover have "x = (x div DAY) * DAY + x mod DAY" by simp
  ultimately show ?thesis by linarith
qed

lemma parse_alarm_time_future_fixed_offset:
  assumes tz: "pytz_timezone env z = Some tz"
    and now: "utcoffset_at tz (alarm_utc_now env) = c"
    and loc: "\<And>w. localize_offset tz w = c"
    and res: "parse_alarm_time env (JStr ts) (JStr z) = Some a"
  shows "alarm_utc_now env < a"
proof -
  from res tz obtain h m where hm: "parsed_time env ts = Some (h, m)"
    by (auto simp: parse_alarm_time_def split: option.splits)
  define today where "today = ((alarm_utc_now env + c) div DAY) * DAY"
  define naive where "naive = today + int h * 3600000000 + int m * 60000000"
  have fl: "alarm_utc_now env + c < today + DAY"
    unfolding today_def by (rule midnight_floor)
  have ge: "today \<le> naive" by (simp add: naive_def)
  from res tz hm now loc
  have a: "a = (if naive - c \<le> alarm_utc_now env then naive + DAY else naive) - c"
    by (auto simp: parse_alarm_time_def Let_def naive_def today_def split: if_splits)
  show ?thesis
  proof (cases "naive - c \<le> alarm_utc_now env")
    case True
    with a fl ge show ?thesis by simp
  next
    case False
    with a show ?thesis by simp
  qed
qed

text \<open>
  C10. The alarm time need not be in the future. In New York at 23:45 on 2026-11-01, the
  day summer time ends, the time \<open>12:30 am\<close> is read as 00:30 summer time of that day,
  which has passed; one day is added to the reading with its summer-time offset kept,
  and the result, 04:30 UTC on 2026-11-02, lies a quarter of an hour before the time of
  the call. \<open>set_alarm\<close> stores it and reports success.
\<close>

theorem alarm_in_the_past_after_fall_back:
  "parse_alarm_time november_night (JStr ''12:30 am'') (JStr ''America/New_York'')
     = Some 63929190600000000
   \<and> 63929190600000000 < alarm_utc_now november_night
   \<and> map (\<lambda>(alarm_id, doc). alarm_time doc)
        (alarms (snd (set_alarm november_night ''u1'' (JStr ''12:30 am'')
                        (JStr ''America/New_York'') False None no_alarms)))
     = [63929190600000000]
   \<and> map_of (fst (set_alarm november_night ''u1'' (JStr ''12:30 am'')
                        (JStr ''America/New_York'') False None no_alarms)) ''status''
     = Some (JStr ''success'')"
proof -
  have p: "parse_alarm_time november_night (JStr ''12:30 am'') (JStr ''America/New_York'')
     = Some 63929190600000000"
    by (simp add: parse_alarm_time_def november_night_def zones_def clock_times_def
        new_york_2026_def Let_def DAY_def DT_MIN_def DT_MAX_def)
  have n: "63929190600000000 < alarm_utc_now november_night"
    by (simp add: november_night_def)
  have i: "\<And>d. insert_one november_night d = Some ''alarm-1''"
    by (simp add: november_night_def)
  from p n show ?thesis
    by (simp add: set_alarm_def Let_def i no_alarms_def)
qed

end
